theory Spec2Isabelle
  imports Main "HOL-Library.Word"
begin

section \<open>The HyperEVM NFT tracker (main.py)\<close>

text \<open>
  A shallow embedding of \<^verbatim>\<open>main.py\<close>. Every \<^verbatim>\<open>try ... except Exception\<close> of the source is a
  case distinction on a result of type \<open>error + 'a\<close>; what a function hands to the bot is returned
  as a list of messages. Python's own operations (\<^verbatim>\<open>str.lower\<close>, \<^verbatim>\<open>str\<close>, \<^verbatim>\<open>int(s, 16)\<close>, slicing,
  the format specification \<^verbatim>\<open>.6f\<close>) and the library calls \<^verbatim>\<open>HexBytes.hex\<close> and \<^verbatim>\<open>from_wei\<close> are
  modelled on byte strings, ASCII text and non-negative decimals, which is all the program feeds
  them. The library is web3 6 (the source calls \<^verbatim>\<open>from_wei\<close> and \<^verbatim>\<open>is_connected\<close>): the data of a log
  and the input of a transaction are \<^verbatim>\<open>HexBytes\<close>, byte strings, and \<^verbatim>\<open>hex()\<close> of a topic starts
  with \<^verbatim>\<open>0x\<close>. A \<open>char\<close> is a byte, so a \<open>string\<close> is a byte string as well as a text.
\<close>

subsection \<open>Errors\<close>

datatype error = RpcError | IndexError | KeyError string | TypeError | ValueError

definition ebind :: "error + 'a \<Rightarrow> ('a \<Rightarrow> error + 'b) \<Rightarrow> error + 'b" where
  "ebind m f = (case m of Inl e \<Rightarrow> Inl e | Inr v \<Rightarrow> f v)"

definition nth_err :: "'a list \<Rightarrow> nat \<Rightarrow> error + 'a" where
  \<comment> \<open>\<^verbatim>\<open>xs[i]\<close> for a constant index \<open>i \<ge> 0\<close>: IndexError out of range\<close>
  "nth_err xs i = (if i < length xs then Inr (xs ! i) else Inl IndexError)"

subsection \<open>Python text\<close>

definition nl :: string where
  "nl = [CHR 0x0A]"

definition lower_char :: "char \<Rightarrow> char" where
  "lower_char c =
     (case map_of (zip ''ABCDEFGHIJKLMNOPQRSTUVWXYZ'' ''abcdefghijklmnopqrstuvwxyz'') c of
        None \<Rightarrow> c
      | Some d \<Rightarrow> d)"

definition lower :: "string \<Rightarrow> string" where
  \<comment> \<open>\<^verbatim>\<open>str.lower()\<close>\<close>
  "lower s = map lower_char s"

definition digit_char :: "nat \<Rightarrow> char" where
  "digit_char n = ''0123456789abcdef'' ! n"

fun str_nat :: "nat \<Rightarrow> string" where
  "str_nat n = (if n < 10 then [digit_char n] else str_nat (n div 10) @ [digit_char (n mod 10)])"

declare str_nat.simps [simp del]

definition str_int :: "int \<Rightarrow> string" where
  \<comment> \<open>\<^verbatim>\<open>str(i)\<close> for an int\<close>
  "str_int i = (if i < 0 then CHR ''-'' # str_nat (nat (- i)) else str_nat (nat i))"

fun join :: "string \<Rightarrow> string list \<Rightarrow> string" where
  \<comment> \<open>\<^verbatim>\<open>sep.join(xs)\<close>\<close>
  "join sep [] = []"
| "join sep [x] = x"
| "join sep (x # y # ys) = x @ sep @ join sep (y # ys)"

subsection \<open>\<^verbatim>\<open>int(s, 16)\<close>\<close>

definition is_space :: "char \<Rightarrow> bool" where
  \<comment> \<open>the bytes that \<^verbatim>\<open>int\<close> strips from both ends\<close>
  "is_space c = (let n = (of_char c :: nat) in (9 \<le> n \<and> n \<le> 13) \<or> n = 32)"

definition hexval :: "char \<Rightarrow> nat option" where
  "hexval c = (let n = (of_char c :: nat) in
     if 48 \<le> n \<and> n \<le> 57 then Some (n - 48)
     else if 97 \<le> n \<and> n \<le> 102 then Some (n - 87)
     else if 65 \<le> n \<and> n \<le> 70 then Some (n - 55)
     else None)"

fun hex_body :: "string \<Rightarrow> bool \<Rightarrow> nat \<Rightarrow> nat option" where
  \<comment> \<open>one digit or more, single underscores allowed between digits; the flag says that the
      previous character was a digit, the number is the value read so far\<close>
  "hex_body [] after_digit acc = (if after_digit then Some acc else None)"
| "hex_body (c # cs) after_digit acc =
     (if c = CHR ''_'' then (if after_digit then hex_body cs False acc else None)
      else case hexval c of None \<Rightarrow> None | Some d \<Rightarrow> hex_body cs True (16 * acc + d))"

definition strip :: "string \<Rightarrow> string" where
  "strip s = rev (dropWhile is_space (rev (dropWhile is_space s)))"

definition int16 :: "string \<Rightarrow> error + int" where
  \<comment> \<open>\<^verbatim>\<open>int(s, 16)\<close> on bytes or ASCII text: surrounding whitespace, a sign, the prefix
      \<^verbatim>\<open>0x\<close> (after which one underscore may follow), then the digits. Anything else, a NUL
      byte or a byte above 127 among it, raises ValueError.\<close>
  "int16 s =
     (let s1 = strip s;
          neg = (take 1 s1 = ''-'');
          s2 = (if take 1 s1 = ''+'' \<or> take 1 s1 = ''-'' then drop 1 s1 else s1);
          s3 = (if take 2 s2 = ''0x'' \<or> take 2 s2 = ''0X''
                then (if take 1 (drop 2 s2) = ''_'' then drop 3 s2 else drop 2 s2)
                else s2)
      in case hex_body s3 False 0 of
           None \<Rightarrow> Inl ValueError
         | Some n \<Rightarrow> Inr (if neg then - int n else int n))"

subsection \<open>\<^verbatim>\<open>from_wei\<close> and the format \<^verbatim>\<open>.6f\<close>\<close>

text \<open>
  \<^verbatim>\<open>web3.from_wei(number, 'ether')\<close> returns the int 0 for 0, raises ValueError outside
  \<open>0 .. 2^256 - 1\<close>, and otherwise divides \<^verbatim>\<open>Decimal(number)\<close> by \<open>10^18\<close> at 999 digits of
  precision, which is exact. A decimal is a coefficient and a number of fractional places; the int
  0 is the decimal 0, as \<^verbatim>\<open>.6f\<close> prints both alike.
\<close>

datatype decimal = Decimal (coefficient: nat) (places: nat)

definition MAX_WEI :: int where
  "MAX_WEI = 2 ^ 256 - 1"

definition from_wei :: "int \<Rightarrow> error + decimal" where
  "from_wei number =
     (if number = 0 then Inr (Decimal 0 0)
      else if number < 0 \<or> number > MAX_WEI then Inl ValueError
      else Inr (Decimal (nat number) 18))"

definition round_half_even :: "nat \<Rightarrow> nat \<Rightarrow> nat" where
  \<comment> \<open>\<open>c / d\<close> to the nearest integer, a tie to the even one (the default rounding of decimal)\<close>
  "round_half_even c d =
     (let q = c div d; r = c mod d
      in if d < 2 * r \<or> (2 * r = d \<and> odd q) then q + 1 else q)"

definition quantize6 :: "decimal \<Rightarrow> nat" where
  \<comment> \<open>the value in millionths, rounded\<close>
  "quantize6 x =
     (if places x \<le> 6 then coefficient x * 10 ^ (6 - places x)
      else round_half_even (coefficient x) (10 ^ (places x - 6)))"

definition zfill :: "nat \<Rightarrow> string \<Rightarrow> string" where
  "zfill w s = replicate (w - length s) CHR ''0'' @ s"

definition format_6f :: "decimal \<Rightarrow> string" where
  \<comment> \<open>\<^verbatim>\<open>f"{x:.6f}"\<close>\<close>
  "format_6f x =
     (let q = quantize6 x
      in str_nat (q div 1000000) @ ''.'' @ zfill 6 (str_nat (q mod 1000000)))"

subsection \<open>Ledger data\<close>

text \<open>
  What the ledger client returns. A topic is a 32-byte value; \<^verbatim>\<open>HexBytes.hex()\<close> renders it as
  \<^verbatim>\<open>0x\<close> and 64 lower-case digits, which is the rendering the source relies on when it compares a
  topic with a \<^verbatim>\<open>0x\<close>-prefixed constant and cuts an address off at index 26. The data payload
  of a log and the input of a transaction are byte strings: \<open>log_data l\<close> holds the bytes of
  \<^verbatim>\<open>log.data\<close>, 32 for each word of the payload, and slicing and \<^verbatim>\<open>len\<close> count bytes.
\<close>

type_synonym bytes32 = "256 word"

record log =
  log_address :: string
  log_topics :: "bytes32 list"
  log_data :: string

record receipt =
  rc_status :: int
  rc_gasUsed :: int
  rc_logs :: "log list"

record tx =
  tx_hash :: bytes32
  tx_from :: string
  tx_to :: "string option"
  tx_input :: string
  tx_value :: int
  tx_gasPrice :: int

record block =
  transactions :: "tx list"

record web3 =
  keccak_text :: "string \<Rightarrow> bytes32"
  block_number :: "error + int"
  get_block :: "int \<Rightarrow> error + block"
  get_transaction_receipt :: "bytes32 \<Rightarrow> error + receipt"

fun hex_digits :: "nat \<Rightarrow> nat \<Rightarrow> string" where
  \<comment> \<open>the lowest \<open>k\<close> hexadecimal digits of \<open>n\<close>\<close>
  "hex_digits 0 n = []"
| "hex_digits (Suc k) n = hex_digits k (n div 16) @ [digit_char (n mod 16)]"

definition hex :: "bytes32 \<Rightarrow> string" where
  \<comment> \<open>\<^verbatim>\<open>HexBytes.hex()\<close> of a 32-byte value\<close>
  "hex w = ''0x'' @ hex_digits 64 (unat w)"

subsection \<open>The tracker\<close>

definition CONTRACT_ADDRESS :: string where
  "CONTRACT_ADDRESS = ''0xb6c73F6c09f850651DCb6D62a4D3A7F25e0016C4''"

record tracker =
  contract_address :: string
  last_processed_block :: int

definition init :: "web3 \<Rightarrow> error + tracker" where
  \<comment> \<open>\<^verbatim>\<open>__init__\<close>; the dictionary \<^verbatim>\<open>function_signatures\<close> is never read and is left out\<close>
  "init w = ebind (block_number w) (\<lambda>h.
     Inr \<lparr>contract_address = lower CONTRACT_ADDRESS, last_processed_block = h\<rparr>)"

subsection \<open>Decoding logs\<close>

datatype pyval = PInt int | PStr string

type_synonym pydict = "(string \<times> pyval) list"

definition chunks64 :: "string \<Rightarrow> string list" where
  \<comment> \<open>\<^verbatim>\<open>[data[i:i + 64] for i in range(0, len(data), 64)]\<close>: pieces of 64 bytes, the last one
      possibly shorter\<close>
  "chunks64 d = map (\<lambda>k. take 64 (drop (64 * k) d)) [0..<(length d + 63) div 64]"

definition topic_address :: "bytes32 \<Rightarrow> string" where
  \<comment> \<open>\<^verbatim>\<open>"0x" + topic.hex()[26:]\<close>\<close>
  "topic_address t = ''0x'' @ drop 26 (hex t)"

definition bid_accepted_body :: "log \<Rightarrow> error + pydict option" where
  \<comment> \<open>the \<^verbatim>\<open>try\<close> block of \<^verbatim>\<open>decode_bid_accepted_event\<close>; \<^verbatim>\<open>log.data[2:]\<close> drops two bytes and
      \<^verbatim>\<open>int(chunk, 16)\<close> reads the bytes of a chunk as hexadecimal text\<close>
  "bid_accepted_body l =
     (let data = drop 2 (log_data l);
          chunks = chunks64 data
      in if 8 \<le> length chunks then
           ebind (int16 (chunks ! 0)) (\<lambda>bid_type.
           ebind (int16 (chunks ! 2)) (\<lambda>price_per_item.
           ebind (int16 (chunks ! 3)) (\<lambda>quantity.
           ebind (int16 (chunks ! 7)) (\<lambda>token_id.
           ebind (nth_err (log_topics l) 1) (\<lambda>t1.
           ebind (nth_err (log_topics l) 2) (\<lambda>t2.
           let bidder = topic_address t1;
               nft_address = topic_address t2;
               seller = (if 3 < length (log_topics l) then topic_address (log_topics l ! 3)
                         else ''Unknown'')
           in Inr (Some [(''tokenId'', PInt token_id),
                         (''bidType'', PInt bid_type),
                         (''bidder'', PStr bidder),
                         (''nftAddress'', PStr nft_address),
                         (''pricePerItem'', PInt price_per_item),
                         (''quantity'', PInt quantity),
                         (''seller'', PStr seller),
                         (''paymentToken'', PStr ''WHYPE'')])))))))
         else Inr None)"

definition decode_bid_accepted_event :: "log \<Rightarrow> pydict option" where
  \<comment> \<open>an exception in the body is printed and the function returns None\<close>
  "decode_bid_accepted_event l = (case bid_accepted_body l of Inl e \<Rightarrow> None | Inr r \<Rightarrow> r)"

definition item_sold_body :: "log \<Rightarrow> error + pydict option" where
  \<comment> \<open>the \<^verbatim>\<open>try\<close> block of \<^verbatim>\<open>decode_item_sold_event\<close>\<close>
  "item_sold_body l =
     (let data = drop 2 (log_data l);
          chunks = chunks64 data
      in if 6 \<le> length chunks then
           let buyer = (if 1 < length (log_topics l) then topic_address (log_topics l ! 1)
                        else ''Unknown'');
               nft_address = (if 2 < length (log_topics l) then topic_address (log_topics l ! 2)
                              else ''Unknown'');
               seller = (if 3 < length (log_topics l) then topic_address (log_topics l ! 3)
                         else ''Unknown'')
           in ebind (int16 (chunks ! 0)) (\<lambda>price_per_item.
              ebind (int16 (chunks ! 1)) (\<lambda>quantity.
              ebind (int16 (chunks ! 2)) (\<lambda>token_id.
              Inr (Some [(''tokenId'', PInt token_id),
                         (''buyer'', PStr buyer),
                         (''seller'', PStr seller),
                         (''nftAddress'', PStr nft_address),
                         (''pricePerItem'', PInt price_per_item),
                         (''quantity'', PInt quantity),
                         (''paymentToken'', PStr ''WHYPE'')]))))
         else Inr None)"

definition decode_item_sold_event :: "log \<Rightarrow> pydict option" where
  "decode_item_sold_event l = (case item_sold_body l of Inl e \<Rightarrow> None | Inr r \<Rightarrow> r)"

subsection \<open>Classifying the logs of a receipt\<close>

definition bid_accepted_topic :: string where
  "bid_accepted_topic = ''0xf6b2b7813b1815a0e2e32964b4f22ec24862322d9c9c0e0eefac425dfc455ab1''"

definition item_sold_topic :: string where
  "item_sold_topic = ''0x72d3f914473a393354e6fcd9c3cb7d2eee53924b9b856f9da274e024566292a5''"

definition transfer_topic :: "web3 \<Rightarrow> string" where
  "transfer_topic w = hex (keccak_text w ''Transfer(address,address,uint256)'')"

definition dict_get :: "pydict \<Rightarrow> string \<Rightarrow> error + pyval" where
  \<comment> \<open>\<^verbatim>\<open>d[k]\<close>\<close>
  "dict_get d k = (case map_of d k of None \<Rightarrow> Inl (KeyError k) | Some v \<Rightarrow> Inr v)"

type_synonym event = "string \<times> pydict"

definition is_transfer :: "web3 \<Rightarrow> tracker \<Rightarrow> log \<Rightarrow> bool" where
  \<comment> \<open>the condition of the first \<^verbatim>\<open>if\<close> of the loop\<close>
  "is_transfer w tr l =
     (4 \<le> length (log_topics l) \<and> hex (log_topics l ! 0) = transfer_topic w
      \<and> lower (log_address l) = contract_address tr)"

definition classify_log ::
  "web3 \<Rightarrow> tracker \<Rightarrow> log \<Rightarrow> pyval list \<times> event list \<Rightarrow> error + pyval list \<times> event list" where
  \<comment> \<open>the body of the \<^verbatim>\<open>for\<close> loop of \<^verbatim>\<open>extract_token_ids_from_logs\<close>: the two lists after
      the log, or the exception that leaves the loop\<close>
  "classify_log w tr l acc =
     (let token_ids = fst acc; event_details = snd acc
      in if is_transfer w tr l
         then ebind (int16 (hex (log_topics l ! 3))) (\<lambda>token_id.
              Inr (token_ids @ [PInt token_id], event_details))
         else ebind (nth_err (log_topics l) 0) (\<lambda>t0.
              if hex t0 = bid_accepted_topic then
                (case decode_bid_accepted_event l of
                   None \<Rightarrow> Inr acc
                 | Some bid_data \<Rightarrow>
                     if bid_data = [] then Inr acc
                     else (case map_of bid_data ''tokenId'' of
                             None \<Rightarrow> Inr acc
                           | Some t \<Rightarrow>
                               Inr (token_ids @ [t], event_details @ [(''BidAccepted'', bid_data)])))
              else if hex t0 = item_sold_topic then
                (case decode_item_sold_event l of
                   None \<Rightarrow> Inr acc
                 | Some item_sold_data \<Rightarrow>
                     if item_sold_data = [] then Inr acc
                     else (case map_of item_sold_data ''tokenId'' of
                             None \<Rightarrow> Inr acc
                           | Some t \<Rightarrow>
                               Inr (token_ids @ [t], event_details @ [(''ItemSold'', item_sold_data)])))
              else Inr acc))"

fun extract_loop ::
  "web3 \<Rightarrow> tracker \<Rightarrow> log list \<Rightarrow> pyval list \<times> event list \<Rightarrow> pyval list \<times> event list" where
  \<comment> \<open>the \<^verbatim>\<open>try\<close> is around the whole loop: an exception ends it, and what the two lists hold
      by then is returned\<close>
  "extract_loop w tr [] acc = acc"
| "extract_loop w tr (l # ls) acc =
     (case classify_log w tr l acc of
        Inl e \<Rightarrow> acc
      | Inr acc' \<Rightarrow> extract_loop w tr ls acc')"

definition extract_token_ids_from_logs :: "web3 \<Rightarrow> tracker \<Rightarrow> log list \<Rightarrow> pyval list \<times> event list" where
  "extract_token_ids_from_logs w tr logs = extract_loop w tr logs ([], [])"

subsection \<open>Notifications\<close>

text \<open>
  A message is what \<^verbatim>\<open>bot.send_message\<close> is called with. Each sender returns the messages it
  handed to the bot: none when building the text raised, one otherwise. A delivery that raises
  afterwards is printed by the same \<^verbatim>\<open>except\<close> and changes nothing else.
\<close>

record message =
  chat_id :: "string option"
  msg_text :: string
  parse_mode :: string

definition quote :: string where
  "quote = [CHR 0x27]"

definition truthy :: "pyval \<Rightarrow> bool" where
  "truthy v = (case v of PInt i \<Rightarrow> i \<noteq> 0 | PStr s \<Rightarrow> s \<noteq> [])"

definition str_val :: "pyval \<Rightarrow> string" where
  \<comment> \<open>\<^verbatim>\<open>str(v)\<close>, also what an f-string prints for \<^verbatim>\<open>{v}\<close>\<close>
  "str_val v = (case v of PInt i \<Rightarrow> str_int i | PStr s \<Rightarrow> s)"

definition map_str :: "pyval \<Rightarrow> error + string list" where
  \<comment> \<open>\<^verbatim>\<open>map(str, v)\<close>: an int is not iterable, a string yields its characters\<close>
  "map_str v = (case v of PInt i \<Rightarrow> Inl TypeError | PStr s \<Rightarrow> Inr (map (\<lambda>c. [c]) s))"

definition wei_val :: "pyval \<Rightarrow> error + decimal" where
  \<comment> \<open>\<^verbatim>\<open>web3.from_wei(v, 'ether')\<close> on a dictionary value\<close>
  "wei_val v = (case v of PInt i \<Rightarrow> from_wei i | PStr s \<Rightarrow> Inl TypeError)"

definition token_text :: "pyval \<Rightarrow> error + string" where
  \<comment> \<open>\<^verbatim>\<open>', '.join(map(str, t)) if t else 'Unknown'\<close>\<close>
  "token_text t = (if truthy t then ebind (map_str t) (\<lambda>xs. Inr (join '', '' xs)) else Inr ''Unknown'')"

definition message_text :: "string \<Rightarrow> string \<Rightarrow> string \<Rightarrow> string \<Rightarrow> string" where
  \<comment> \<open>the f-string the three senders share, from the line break after the opening quotes to the
      twelve spaces before the closing ones\<close>
  "message_text tokens price seller buyer =
     nl @ ''PiP & Friends '' @ tokens @ '' was bought for '' @ price @ '' HYPE'' @ nl
     @ nl
     @ ''from: '' @ quote @ seller @ quote @ nl
     @ ''to: '' @ quote @ buyer @ quote @ nl
     @ ''            ''"

definition item_sold_text :: "pydict \<Rightarrow> error + string" where
  \<comment> \<open>the \<^verbatim>\<open>try\<close> block of \<^verbatim>\<open>send_item_sold_notification\<close> up to the message\<close>
  "item_sold_text item_data =
     ebind (dict_get item_data ''pricePerItem'') (\<lambda>p.
     ebind (wei_val p) (\<lambda>price_hype.
     ebind (dict_get item_data ''tokenId'') (\<lambda>t.
     ebind (token_text t) (\<lambda>tokens.
     ebind (dict_get item_data ''seller'') (\<lambda>seller.
     ebind (dict_get item_data ''bidder'') (\<lambda>bidder.
     Inr (message_text tokens (format_6f price_hype) (str_val seller) (str_val bidder))))))))"

definition send_item_sold_notification :: "string option \<Rightarrow> pydict \<Rightarrow> message list" where
  "send_item_sold_notification CHAT_ID item_data =
     (case item_sold_text item_data of
        Inl e \<Rightarrow> []
      | Inr m \<Rightarrow> [\<lparr>chat_id = CHAT_ID, msg_text = m, parse_mode = ''Markdown''\<rparr>])"

definition bid_accepted_text :: "pydict \<Rightarrow> error + string" where
  \<comment> \<open>the \<^verbatim>\<open>try\<close> block of \<^verbatim>\<open>send_bid_accepted_notification\<close> up to the message\<close>
  "bid_accepted_text bid_data =
     ebind (dict_get bid_data ''pricePerItem'') (\<lambda>p.
     ebind (wei_val p) (\<lambda>price_hype.
     ebind (dict_get bid_data ''tokenId'') (\<lambda>t.
     ebind (token_text t) (\<lambda>tokens.
     ebind (dict_get bid_data ''seller'') (\<lambda>seller.
     ebind (dict_get bid_data ''bidder'') (\<lambda>bidder.
     Inr (message_text tokens (format_6f price_hype) (str_val seller) (str_val bidder))))))))"

definition send_bid_accepted_notification :: "string option \<Rightarrow> pydict \<Rightarrow> message list" where
  "send_bid_accepted_notification CHAT_ID bid_data =
     (case bid_accepted_text bid_data of
        Inl e \<Rightarrow> []
      | Inr m \<Rightarrow> [\<lparr>chat_id = CHAT_ID, msg_text = m, parse_mode = ''Markdown''\<rparr>])"

definition str_opt :: "string option \<Rightarrow> string" where
  \<comment> \<open>what an f-string prints for an address that may be None\<close>
  "str_opt a = (case a of None \<Rightarrow> ''None'' | Some s \<Rightarrow> s)"

definition send_generic_notification ::
  "string option \<Rightarrow> pyval list \<Rightarrow> string option \<Rightarrow> string \<Rightarrow> decimal \<Rightarrow> message list" where
  "send_generic_notification CHAT_ID token_ids buyer seller tx_value_hype =
     [\<lparr>chat_id = CHAT_ID,
       msg_text = message_text
                (if token_ids \<noteq> [] then join '', '' (map str_val token_ids) else ''Unknown'')
                (format_6f tx_value_hype) seller (str_opt buyer),
       parse_mode = ''Markdown''\<rparr>]"

subsection \<open>Transactions and blocks\<close>

text \<open>
  The result of analysing a transaction is what the call did: the typed events it extracted from
  the receipt and the messages it handed to the bot.
\<close>

record outcome =
  classified :: "event list"
  sent :: "message list"

definition nothing :: outcome where
  "nothing = \<lparr>classified = [], sent = []\<rparr>"

definition outcome_append :: "outcome \<Rightarrow> outcome \<Rightarrow> outcome" where
  "outcome_append a b = \<lparr>classified = classified a @ classified b, sent = sent a @ sent b\<rparr>"

definition send_event :: "string option \<Rightarrow> event \<Rightarrow> message list" where
  \<comment> \<open>the body of the loop over \<^verbatim>\<open>event_details\<close>\<close>
  "send_event CHAT_ID ev =
     (if fst ev = ''ItemSold'' then send_item_sold_notification CHAT_ID (snd ev)
      else if fst ev = ''BidAccepted'' then send_bid_accepted_notification CHAT_ID (snd ev)
      else [])"

definition handle_nft_transaction :: "web3 \<Rightarrow> string option \<Rightarrow> tracker \<Rightarrow> tx \<Rightarrow> receipt \<Rightarrow> outcome" where
  "handle_nft_transaction w CHAT_ID tr t r =
     (let buyer = tx_to t;
          seller = tx_from t;
          gas_cost_wei = rc_gasUsed r * tx_gasPrice t
      in case from_wei gas_cost_wei of
           Inl e \<Rightarrow> nothing
         | Inr gas_cost_hype \<Rightarrow>
             let ex = extract_token_ids_from_logs w tr (rc_logs r);
                 token_ids = fst ex;
                 event_details = snd ex
             in case (if 0 < tx_value t then from_wei (tx_value t) else Inr (Decimal 0 0)) of
                  Inl e \<Rightarrow> \<lparr>classified = event_details, sent = []\<rparr>
                | Inr tx_value_hype \<Rightarrow>
                    \<lparr>classified = event_details,
                     sent = concat (map (send_event CHAT_ID) event_details)
                            @ (if event_details = [] \<and> token_ids \<noteq> []
                               then send_generic_notification CHAT_ID token_ids buyer seller tx_value_hype
                               else [])\<rparr>)"

definition analyze_transaction :: "web3 \<Rightarrow> string option \<Rightarrow> tracker \<Rightarrow> tx \<Rightarrow> outcome" where
  "analyze_transaction w CHAT_ID tr t =
     (case get_transaction_receipt w (tx_hash t) of
        Inl e \<Rightarrow> nothing
      | Inr r \<Rightarrow>
          if rc_status r \<noteq> 1 then nothing
          else if tx_input t \<noteq> [] \<and> 10 \<le> length (tx_input t)
               then handle_nft_transaction w CHAT_ID tr t r
               else nothing)"

definition addressed :: "tracker \<Rightarrow> tx \<Rightarrow> bool" where
  \<comment> \<open>\<^verbatim>\<open>tx.to and tx.to.lower() == self.contract_address\<close>\<close>
  "addressed tr t =
     (case tx_to t of None \<Rightarrow> False | Some a \<Rightarrow> a \<noteq> [] \<and> lower a = contract_address tr)"

fun process_txs :: "web3 \<Rightarrow> string option \<Rightarrow> tracker \<Rightarrow> tx list \<Rightarrow> outcome" where
  \<comment> \<open>the loop over \<^verbatim>\<open>block.transactions\<close>\<close>
  "process_txs w CHAT_ID tr [] = nothing"
| "process_txs w CHAT_ID tr (t # ts) =
     outcome_append
       (if addressed tr t then analyze_transaction w CHAT_ID tr t else nothing)
       (process_txs w CHAT_ID tr ts)"

definition process_block :: "web3 \<Rightarrow> string option \<Rightarrow> tracker \<Rightarrow> int \<Rightarrow> outcome" where
  "process_block w CHAT_ID tr block_num =
     (case get_block w block_num of
        Inl e \<Rightarrow> nothing
      | Inr b \<Rightarrow> process_txs w CHAT_ID tr (transactions b))"

subsection \<open>The polling loop\<close>

text \<open>
  The state of the poller is the tracker and a trace: the heights handed to \<^verbatim>\<open>process_block\<close>,
  in order, each with its outcome. One iteration of \<^verbatim>\<open>while True\<close> is \<open>cycle\<close>; the loop itself
  never returns, and \<open>track_transactions\<close> runs it for the iterations whose ledger answers are
  given, one \<open>web3\<close> per iteration.
\<close>

type_synonym poller = "tracker \<times> (int \<times> outcome) list"

fun blocks_loop :: "web3 \<Rightarrow> string option \<Rightarrow> int list \<Rightarrow> poller \<Rightarrow> poller" where
  \<comment> \<open>the loop over \<^verbatim>\<open>range(self.last_processed_block + 1, current_block + 1)\<close>\<close>
  "blocks_loop w CHAT_ID [] st = st"
| "blocks_loop w CHAT_ID (n # ns) st =
     blocks_loop w CHAT_ID ns (fst st, snd st @ [(n, process_block w CHAT_ID (fst st) n)])"

definition cycle :: "web3 \<Rightarrow> string option \<Rightarrow> poller \<Rightarrow> poller" where
  "cycle w CHAT_ID st =
     (case block_number w of
        Inl e \<Rightarrow> st
      | Inr current_block \<Rightarrow>
          let st' = blocks_loop w CHAT_ID [last_processed_block (fst st) + 1 .. current_block] st
          in ((fst st')\<lparr>last_processed_block := current_block\<rparr>, snd st'))"

fun track_transactions :: "string option \<Rightarrow> web3 list \<Rightarrow> poller \<Rightarrow> poller" where
  "track_transactions CHAT_ID [] st = st"
| "track_transactions CHAT_ID (w # ws) st = track_transactions CHAT_ID ws (cycle w CHAT_ID st)"

definition visited :: "poller \<Rightarrow> int list" where
  \<comment> \<open>the heights processed so far\<close>
  "visited st = map fst (snd st)"

subsection \<open>Payloads, consistent heads, reading a price back\<close>

text \<open>
  Notions that the properties below are stated with. The data payload of a log whose non-indexed
  parameters are the words \<open>ws\<close> is \<open>abi_payload ws\<close>: each word as its 32 bytes, the most
  significant first. A payload can hold any bytes; \<open>hex_text_payload ws\<close> is the payload of
  \<open>2 * length ws + 1\<close> words whose bytes are ASCII characters, namely \<^verbatim>\<open>0x\<close>, each of \<open>ws\<close> as 64
  hexadecimal digits, and 30 zeros. A run of the poller has consistent heads when no observed
  chain head lies below the cursor at the time it is observed. A rendered price is read back as
  \<^verbatim>\<open>Decimal(text)\<close> reads it: the digits without the point, and the number of digits after it.
\<close>

fun bytes_be :: "nat \<Rightarrow> nat \<Rightarrow> string" where
  \<comment> \<open>the lowest \<open>k\<close> bytes of \<open>n\<close>, the most significant first\<close>
  "bytes_be 0 n = []"
| "bytes_be (Suc k) n = bytes_be k (n div 256) @ [char_of (n mod 256)]"

definition abi_payload :: "nat list \<Rightarrow> string" where
  "abi_payload ws = concat (map (bytes_be 32) ws)"

definition hex_text_payload :: "nat list \<Rightarrow> string" where
  "hex_text_payload ws = ''0x'' @ concat (map (hex_digits 64) ws) @ replicate 30 CHR ''0''"

fun digit_list :: "nat \<Rightarrow> nat \<Rightarrow> nat list" where
  \<comment> \<open>the values of the digits of \<open>hex_digits\<close>\<close>
  "digit_list 0 n = []"
| "digit_list (Suc k) n = digit_list k (n div 16) @ [n mod 16]"

fun heads_consistent :: "int \<Rightarrow> web3 list \<Rightarrow> bool" where
  "heads_consistent C [] = True"
| "heads_consistent C (w # ws) =
     (case block_number w of
        Inl e \<Rightarrow> heads_consistent C ws
      | Inr H \<Rightarrow> C \<le> H \<and> heads_consistent H ws)"

definition is_digit :: "char \<Rightarrow> bool" where
  "is_digit c = (c \<in> set ''0123456789'')"

definition read_nat :: "string \<Rightarrow> nat" where
  "read_nat s = foldl (\<lambda>a c. 10 * a + (of_char c - 48)) 0 s"

definition read_decimal :: "string \<Rightarrow> decimal option" where
  "read_decimal s =
     (let ip = takeWhile (\<lambda>c. c \<noteq> CHR ''.'') s;
          fp = drop (Suc (length ip)) s
      in if ip \<noteq> [] \<and> fp \<noteq> [] \<and> list_all is_digit (ip @ fp)
         then Some (Decimal (read_nat (ip @ fp)) (length fp))
         else None)"

subsection \<open>Example ledger data\<close>

definition TRANSFER_HASH :: bytes32 where
  \<comment> \<open>keccak-256 of \<^verbatim>\<open>Transfer(address,address,uint256)\<close>\<close>
  "TRANSFER_HASH = 0xddf252ad1be2c89b69c2b068fc378daa952ba7f163c4a11628f55a4df523b3ef"

definition BID_ACCEPTED_HASH :: bytes32 where
  "BID_ACCEPTED_HASH = 0xf6b2b7813b1815a0e2e32964b4f22ec24862322d9c9c0e0eefac425dfc455ab1"

definition ITEM_SOLD_HASH :: bytes32 where
  "ITEM_SOLD_HASH = 0x72d3f914473a393354e6fcd9c3cb7d2eee53924b9b856f9da274e024566292a5"

definition addr_a :: bytes32 where
  "addr_a = 0xaaaaaaaaaaaaaaaaaaaaaaaaaaaaaaaaaaaaaaaa"

definition addr_b :: bytes32 where
  "addr_b = 0xbbbbbbbbbbbbbbbbbbbbbbbbbbbbbbbbbbbbbbbb"

definition addr_c :: bytes32 where
  "addr_c = 0xcccccccccccccccccccccccccccccccccccccccc"

definition ex_tracker :: tracker where
  "ex_tracker = \<lparr>contract_address = lower CONTRACT_ADDRESS, last_processed_block = 100\<rparr>"

definition item_sold_log :: "string \<Rightarrow> log" where
  "item_sold_log d =
     \<lparr>log_address = CONTRACT_ADDRESS,
      log_topics = [ITEM_SOLD_HASH, addr_a, addr_b, addr_c],
      log_data = d\<rparr>"

definition bid_accepted_log :: "bytes32 list \<Rightarrow> string \<Rightarrow> log" where
  "bid_accepted_log indexed d =
     \<lparr>log_address = CONTRACT_ADDRESS,
      log_topics = BID_ACCEPTED_HASH # indexed,
      log_data = d\<rparr>"

definition anonymous_log :: log where
  \<comment> \<open>a log without topics\<close>
  "anonymous_log = \<lparr>log_address = CONTRACT_ADDRESS, log_topics = [], log_data = []\<rparr>"

definition transfer_log :: "nat \<Rightarrow> log" where
  "transfer_log token_id =
     \<lparr>log_address = CONTRACT_ADDRESS,
      log_topics = [TRANSFER_HASH, addr_c, addr_a, of_nat token_id],
      log_data = []\<rparr>"

definition ex_receipt :: "int \<Rightarrow> receipt" where
  \<comment> \<open>a receipt with one Transfer log of token 7\<close>
  "ex_receipt st = \<lparr>rc_status = st, rc_gasUsed = 21000, rc_logs = [transfer_log 7]\<rparr>"

definition ex_tx :: "bytes32 \<Rightarrow> string \<Rightarrow> string \<Rightarrow> tx" where
  "ex_tx h dest inp =
     \<lparr>tx_hash = h,
      tx_from = ''0xcccccccccccccccccccccccccccccccccccccccc'',
      tx_to = Some dest,
      tx_input = inp,
      tx_value = 3000000000000000000,
      tx_gasPrice = 1000000000\<rparr>"

definition ex_web3 :: "int \<Rightarrow> tx list \<Rightarrow> web3" where
  \<comment> \<open>a ledger at head \<open>H\<close> whose blocks all hold the transactions \<open>txs\<close>: transaction 1
      succeeded, transaction 2 failed, both with the example receipt\<close>
  "ex_web3 H txs =
     \<lparr>keccak_text = (\<lambda>s. TRANSFER_HASH),
      block_number = Inr H,
      get_block = (\<lambda>n. Inr \<lparr>transactions = txs\<rparr>),
      get_transaction_receipt =
        (\<lambda>h. if h = 1 then Inr (ex_receipt 1) else if h = 2 then Inr (ex_receipt 0) else Inl RpcError)\<rparr>"

section \<open>Auxiliary facts\<close>

subsection \<open>Evaluation\<close>

lemma str_nat_small: "n < 10 \<Longrightarrow> str_nat n = [digit_char n]"
  by (simp add: str_nat.simps)

lemma str_nat_large: "10 \<le> n \<Longrightarrow> str_nat n = str_nat (n div 10) @ [digit_char (n mod 10)]"
  by (subst str_nat.simps) simp

lemma hex_digits_numeral:
  "hex_digits (numeral k) n = hex_digits (pred_numeral k) (n div 16) @ [digit_char (n mod 16)]"
  by (subst numeral_eq_Suc) (rule hex_digits.simps(2))

lemma replicate_num: "replicate (numeral k) x = x # replicate (pred_numeral k) x"
  by (subst numeral_eq_Suc) (rule replicate_Suc)

lemmas text_eval = str_nat_small str_nat_large hex_digits_numeral replicate_num digit_char_def

lemma outcome_append_nothing [simp]:
  "outcome_append nothing a = a" "outcome_append a nothing = a"
  by (simp_all add: outcome_append_def nothing_def)

subsection \<open>Hexadecimal digits and \<open>int16\<close>\<close>

lemma hex_digits_map: "hex_digits k n = map digit_char (digit_list k n)"
  by (induction k arbitrary: n) auto

lemma length_hex_digits [simp]: "length (hex_digits k n) = k"
  by (induction k arbitrary: n) auto

lemma length_digit_list: "length (digit_list k n) = k"
  by (induction k arbitrary: n) auto

lemma digit_list_bound: "d \<in> set (digit_list k n) \<Longrightarrow> d < 16"
  by (induction k arbitrary: n) auto

lemma foldl_digit_list:
  "foldl (\<lambda>a d. 16 * a + d) acc (digit_list k n) = acc * 16 ^ k + n mod 16 ^ k"
proof (induction k arbitrary: n acc)
  case 0
  then show ?case by simp
next
  case (Suc k)
  have "n mod (16 * 16 ^ k) = 16 * (n div 16 mod 16 ^ k) + n mod 16"
    by (simp add: mod_mult2_eq)
  with Suc show ?case by (simp add: algebra_simps)
qed

lemma lt16_cases:
  "d < 16 \<Longrightarrow> d \<in> {0, 1, 2, 3, 4, 5, 6, 7, 8, 9, 10, 11, 12, 13, 14, 15::nat}"
  by simp arith

lemma hexval_digit_char: "d < 16 \<Longrightarrow> hexval (digit_char d) = Some d"
  by (drule lt16_cases) (auto simp: hexval_def digit_char_def)

lemma digit_char_plain:
  "d < 16 \<Longrightarrow> digit_char d \<noteq> CHR ''_'' \<and> digit_char d \<noteq> CHR ''x'' \<and> digit_char d \<noteq> CHR ''X''
     \<and> digit_char d \<noteq> CHR ''+'' \<and> digit_char d \<noteq> CHR ''-'' \<and> \<not> is_space (digit_char d)"
  by (drule lt16_cases) (auto simp: digit_char_def is_space_def)

lemma hex_body_digits:
  "\<forall>d\<in>set ds. d < 16 \<Longrightarrow> ds \<noteq> [] \<or> flag \<Longrightarrow>
     hex_body (map digit_char ds) flag acc = Some (foldl (\<lambda>a d. 16 * a + d) acc ds)"
  by (induction ds arbitrary: flag acc) (auto simp: hexval_digit_char digit_char_plain)

lemma strip_plain:
  assumes "s \<noteq> []" and "\<not> is_space (hd s)" and "\<not> is_space (last s)"
  shows "strip s = s"
proof -
  from assms have "dropWhile is_space s = s" by (cases s) auto
  moreover from assms have "dropWhile is_space (rev s) = rev s"
    by (cases "rev s") (auto simp: last_rev[symmetric] hd_rev)
  ultimately show ?thesis by (simp add: strip_def)
qed

lemma int16_digits:
  assumes "\<forall>d\<in>set ds. d < 16" and "ds \<noteq> []"
  shows "int16 (map digit_char ds) = Inr (int (foldl (\<lambda>a d. 16 * a + d) 0 ds))"
proof -
  let ?s = "map digit_char ds"
  from assms have hd: "hd ds < 16" and lst: "last ds < 16" by auto
  from assms(2) have "hd ?s = digit_char (hd ds)" "last ?s = digit_char (last ds)"
    by (simp_all add: hd_map last_map)
  with hd lst assms(2) have st: "strip ?s = ?s"
    by (intro strip_plain) (simp_all add: digit_char_plain)
  obtain d ds' where ds: "ds = d # ds'" using assms(2) by (cases ds) auto
  with assms(1) have d: "d < 16" by simp
  have t1: "take 1 ?s \<noteq> ''-''" "take 1 ?s \<noteq> ''+''"
    using digit_char_plain[OF d] by (simp_all add: ds)
  have t2: "take 2 ?s \<noteq> ''0x'' \<and> take 2 ?s \<noteq> ''0X''"
  proof (cases ds')
    case Nil
    then show ?thesis by (simp add: ds)
  next
    case (Cons e es)
    with assms(1) ds have e: "e < 16" by simp
    show ?thesis using Cons digit_char_plain[OF e] by (simp add: ds)
  qed
  have "hex_body ?s False 0 = Some (foldl (\<lambda>a d. 16 * a + d) 0 ds)"
    using assms by (intro hex_body_digits) simp_all
  then show ?thesis
    using st t1 t2 assms(2) by (simp add: int16_def Let_def)
qed

lemma int16_prefixed_digits:
  assumes "\<forall>d\<in>set ds. d < 16" and "ds \<noteq> []"
  shows "int16 (''0x'' @ map digit_char ds) = Inr (int (foldl (\<lambda>a d. 16 * a + d) 0 ds))"
proof -
  let ?m = "map digit_char ds"
  let ?s = "''0x'' @ ?m"
  from assms have lst: "last ds < 16" by auto
  from assms(2) have "last ?s = digit_char (last ds)" by (simp add: last_map)
  with lst have "\<not> is_space (last ?s)" using digit_char_plain[of "last ds"] by simp
  moreover have "\<not> is_space (hd ?s)" by (simp add: is_space_def)
  ultimately have st: "strip ?s = ?s"
    by (intro strip_plain) simp_all
  obtain d ds' where ds: "ds = d # ds'" using assms(2) by (cases ds) auto
  with assms(1) have d: "d < 16" by simp
  have t3: "take 1 ?m \<noteq> ''_''"
    using digit_char_plain[OF d] by (simp add: ds)
  have "hex_body ?m False 0 = Some (foldl (\<lambda>a d. 16 * a + d) 0 ds)"
    using assms by (intro hex_body_digits) simp_all
  then show ?thesis
    using st t3 assms(2) by (simp add: int16_def Let_def)
qed

lemma int16_hex_digits:
  assumes "0 < k" and "n < 16 ^ k"
  shows "int16 (hex_digits k n) = Inr (int n)"
proof -
  have ne: "digit_list k n \<noteq> []" using assms(1) by (cases k) auto
  have "int16 (map digit_char (digit_list k n))
          = Inr (int (foldl (\<lambda>a d. 16 * a + d) 0 (digit_list k n)))"
    using ne by (intro int16_digits) (auto dest: digit_list_bound)
  then show ?thesis using assms(2) by (simp add: hex_digits_map foldl_digit_list)
qed

lemma int16_word: "x < 2 ^ 256 \<Longrightarrow> int16 (hex_digits 64 x) = Inr (int x)"
proof -
  assume "x < 2 ^ 256"
  moreover have "(2::nat) ^ 256 = 16 ^ 64" by simp
  ultimately have "x < 16 ^ 64" by simp
  then show ?thesis by (intro int16_hex_digits) simp_all
qed

lemma int16_hex: "int16 (hex t) = Inr (uint t)"
proof -
  have "unat t < 2 ^ 256" using unsigned_less[of t, where 'a = nat] by simp
  moreover have "(2::nat) ^ 256 = 16 ^ 64" by simp
  ultimately have b: "unat t < 16 ^ 64" by simp
  have "length (digit_list 64 (unat t)) = 64" by (rule length_digit_list)
  then have ne: "digit_list 64 (unat t) \<noteq> []" by auto
  have "int16 (''0x'' @ map digit_char (digit_list 64 (unat t)))
          = Inr (int (foldl (\<lambda>a d. 16 * a + d) 0 (digit_list 64 (unat t))))"
    using ne by (intro int16_prefixed_digits) (auto dest: digit_list_bound)
  then show ?thesis using b by (simp add: hex_def hex_digits_map foldl_digit_list)
qed

subsection \<open>Chunks of a payload\<close>

lemma length_chunks64: "length (chunks64 d) = (length d + 63) div 64"
  by (simp add: chunks64_def)

lemma chunks64_last: "0 < length r \<Longrightarrow> length r \<le> 64 \<Longrightarrow> chunks64 r = [r]"
proof -
  assume r: "0 < length r" "length r \<le> 64"
  then have "(length r + 63) div 64 = 1" by arith
  with r show ?thesis by (simp add: chunks64_def)
qed

lemma chunks64_cons:
  assumes "length x = 64"
  shows "chunks64 (x @ r) = x # chunks64 r"
proof -
  have n: "(length (x @ r) + 63) div 64 = Suc ((length r + 63) div 64)"
    using assms by simp
  have "map (\<lambda>k. take 64 (drop (64 * k) (x @ r))) [0..<Suc m]
          = x # map (\<lambda>k. take 64 (drop (64 * k) r)) [0..<m]" for m
    using assms by (simp add: map_upt_Suc del: upt_Suc)
  then show ?thesis unfolding chunks64_def n by simp
qed

lemma chunks64_words:
  "\<forall>x\<in>set xs. length x = 64 \<Longrightarrow> 0 < length r \<Longrightarrow> length r \<le> 64 \<Longrightarrow>
     chunks64 (concat xs @ r) = xs @ [r]"
  by (induction xs) (simp_all add: chunks64_last chunks64_cons)

lemma chunks64_hex_text:
  "chunks64 (drop 2 (hex_text_payload ws)) = map (hex_digits 64) ws @ [replicate 30 CHR ''0'']"
  by (simp add: hex_text_payload_def chunks64_words)

lemma int16_chunk:
  "\<forall>x\<in>set ws. x < 2 ^ 256 \<Longrightarrow> i < length ws \<Longrightarrow>
     int16 ((map (hex_digits 64) ws @ [r]) ! i) = Inr (int (ws ! i))"
  by (simp add: int16_word nth_append)

lemma length_bytes_be [simp]: "length (bytes_be k n) = k"
  by (induction k arbitrary: n) auto

lemma length_abi_payload: "length (abi_payload ws) = 32 * length ws"
  by (simp add: abi_payload_def length_concat comp_def sum_list_triv)

lemma nth_bytes_be: "i < k \<Longrightarrow> bytes_be k n ! i = char_of (n div 256 ^ (k - 1 - i) mod 256)"
proof (induction k arbitrary: n)
  case 0
  then show ?case by simp
next
  case (Suc k)
  show ?case
  proof (cases "i < k")
    case True
    then have e: "Suc k - 1 - i = Suc (k - 1 - i)" by simp
    from True Suc.IH[of "n div 256"] show ?thesis
      unfolding e by (simp add: nth_append div_mult2_eq)
  next
    case False
    with Suc.prems have "i = k" by simp
    then show ?thesis by (simp add: nth_append)
  qed
qed

lemma abi_payload_third_byte:
  assumes "w < 2 ^ 232"
  shows "abi_payload (w # ws) ! 2 = CHR 0x00"
proof -
  have "(2::nat) ^ 232 = 256 ^ 29" by simp
  with assms have "w div 256 ^ 29 = 0" by simp
  then have "bytes_be 32 w ! 2 = char_of (0::nat)"
    using nth_bytes_be[of 2 32 w] by simp
  moreover have "char_of (0::nat) = CHR 0x00" by (simp add: char_of_def)
  ultimately show ?thesis by (simp add: abi_payload_def nth_append)
qed

lemma strip_nul: "\<exists>r. strip (CHR 0x00 # s) = CHR 0x00 # r"
proof -
  have n: "\<not> is_space CHR 0x00" by (simp add: is_space_def)
  have "\<exists>q. dropWhile is_space (rev s @ [CHR 0x00]) = q @ [CHR 0x00]"
  proof (cases "\<forall>x\<in>set (rev s). is_space x")
    case True
    then have "dropWhile is_space (rev s @ [CHR 0x00]) = dropWhile is_space [CHR 0x00]"
      by (intro dropWhile_append2) simp
    with n show ?thesis by simp
  next
    case False
    then obtain x where "x \<in> set (rev s)" "\<not> is_space x" by blast
    then have "dropWhile is_space (rev s @ [CHR 0x00]) = dropWhile is_space (rev s) @ [CHR 0x00]"
      by (rule dropWhile_append1)
    then show ?thesis by blast
  qed
  then obtain q where "dropWhile is_space (rev s @ [CHR 0x00]) = q @ [CHR 0x00]" by blast
  with n show ?thesis by (simp add: strip_def)
qed

lemma int16_nul: "int16 (CHR 0x00 # s) = Inl ValueError"
proof -
  obtain r where r: "strip (CHR 0x00 # s) = CHR 0x00 # r"
    using strip_nul by blast
  show ?thesis by (simp add: int16_def r hexval_def)
qed

subsection \<open>The decoders\<close>

lemma decode_item_sold_short:
  "length (chunks64 (drop 2 (log_data l))) < 6 \<Longrightarrow> decode_item_sold_event l = None"
  by (simp add: decode_item_sold_event_def item_sold_body_def)

lemma decode_item_sold_few_words:
  "length (log_data l) < 6 * 32 \<Longrightarrow> decode_item_sold_event l = None"
  by (rule decode_item_sold_short) (simp add: length_chunks64)

lemma decode_item_sold_shape:
  assumes "decode_item_sold_event l = Some d"
  shows "6 \<le> length (chunks64 (drop 2 (log_data l)))
         \<and> (\<exists>price_per_item quantity token_id.
               int16 (chunks64 (drop 2 (log_data l)) ! 0) = Inr price_per_item
             \<and> int16 (chunks64 (drop 2 (log_data l)) ! 1) = Inr quantity
             \<and> int16 (chunks64 (drop 2 (log_data l)) ! 2) = Inr token_id
             \<and> d = [(''tokenId'', PInt token_id),
                    (''buyer'', PStr (if 1 < length (log_topics l)
                                      then topic_address (log_topics l ! 1) else ''Unknown'')),
                    (''seller'', PStr (if 3 < length (log_topics l)
                                       then topic_address (log_topics l ! 3) else ''Unknown'')),
                    (''nftAddress'', PStr (if 2 < length (log_topics l)
                                           then topic_address (log_topics l ! 2) else ''Unknown'')),
                    (''pricePerItem'', PInt price_per_item),
                    (''quantity'', PInt quantity),
                    (''paymentToken'', PStr ''WHYPE'')])"
  using assms
  by (auto simp: decode_item_sold_event_def item_sold_body_def ebind_def Let_def
      split: if_splits sum.splits)

lemma decode_item_sold_hex_text:
  assumes "log_data l = hex_text_payload ws" and "\<forall>x\<in>set ws. x < 2 ^ 256"
  shows "decode_item_sold_event l =
           (if length ws < 5 then None
            else Some [(''tokenId'', PInt (int (ws ! 2))),
                       (''buyer'', PStr (if 1 < length (log_topics l)
                                         then topic_address (log_topics l ! 1) else ''Unknown'')),
                       (''seller'', PStr (if 3 < length (log_topics l)
                                          then topic_address (log_topics l ! 3) else ''Unknown'')),
                       (''nftAddress'', PStr (if 2 < length (log_topics l)
                                              then topic_address (log_topics l ! 2) else ''Unknown'')),
                       (''pricePerItem'', PInt (int (ws ! 0))),
                       (''quantity'', PInt (int (ws ! 1))),
                       (''paymentToken'', PStr ''WHYPE'')])"
proof (cases "length ws < 5")
  case True
  then show ?thesis
    by (simp add: decode_item_sold_event_def item_sold_body_def assms(1) chunks64_hex_text)
next
  case False
  let ?cs = "map (hex_digits 64) ws @ [replicate 30 CHR ''0'']"
  from False have "0 < length ws" "1 < length ws" "2 < length ws" by linarith+
  then have "int16 (?cs ! 0) = Inr (int (ws ! 0))"
    "int16 (?cs ! 1) = Inr (int (ws ! 1))"
    "int16 (?cs ! 2) = Inr (int (ws ! 2))"
    using assms(2) by (simp_all only: int16_chunk)
  with False show ?thesis
    by (simp add: decode_item_sold_event_def item_sold_body_def assms(1) chunks64_hex_text
        ebind_def Let_def del: nth_map nth_append)
qed

lemma decode_bid_accepted_short:
  "length (chunks64 (drop 2 (log_data l))) < 8 \<or> length (log_topics l) < 3 \<Longrightarrow>
     decode_bid_accepted_event l = None"
  by (auto simp: decode_bid_accepted_event_def bid_accepted_body_def ebind_def nth_err_def Let_def
      split: sum.splits)

lemma decode_bid_accepted_few_words:
  "length (log_data l) < 8 * 32 \<or> length (log_topics l) < 3 \<Longrightarrow>
     decode_bid_accepted_event l = None"
  by (rule decode_bid_accepted_short) (auto simp: length_chunks64)

lemma decode_bid_accepted_shape:
  assumes "decode_bid_accepted_event l = Some d"
  shows "8 \<le> length (chunks64 (drop 2 (log_data l))) \<and> 3 \<le> length (log_topics l)
         \<and> (\<exists>bid_type price_per_item quantity token_id.
               int16 (chunks64 (drop 2 (log_data l)) ! 0) = Inr bid_type
             \<and> int16 (chunks64 (drop 2 (log_data l)) ! 2) = Inr price_per_item
             \<and> int16 (chunks64 (drop 2 (log_data l)) ! 3) = Inr quantity
             \<and> int16 (chunks64 (drop 2 (log_data l)) ! 7) = Inr token_id
             \<and> d = [(''tokenId'', PInt token_id),
                    (''bidType'', PInt bid_type),
                    (''bidder'', PStr (topic_address (log_topics l ! 1))),
                    (''nftAddress'', PStr (topic_address (log_topics l ! 2))),
                    (''pricePerItem'', PInt price_per_item),
                    (''quantity'', PInt quantity),
                    (''seller'', PStr (if 3 < length (log_topics l)
                                       then topic_address (log_topics l ! 3) else ''Unknown'')),
                    (''paymentToken'', PStr ''WHYPE'')])"
  using assms
  by (auto simp: decode_bid_accepted_event_def bid_accepted_body_def ebind_def nth_err_def Let_def
      split: if_splits sum.splits)

lemma decode_bid_accepted_hex_text:
  assumes "log_data l = hex_text_payload ws" and "\<forall>x\<in>set ws. x < 2 ^ 256"
    and "8 \<le> length ws" and "3 \<le> length (log_topics l)"
  shows "decode_bid_accepted_event l =
           Some [(''tokenId'', PInt (int (ws ! 7))),
                 (''bidType'', PInt (int (ws ! 0))),
                 (''bidder'', PStr (topic_address (log_topics l ! 1))),
                 (''nftAddress'', PStr (topic_address (log_topics l ! 2))),
                 (''pricePerItem'', PInt (int (ws ! 2))),
                 (''quantity'', PInt (int (ws ! 3))),
                 (''seller'', PStr (if 3 < length (log_topics l)
                                    then topic_address (log_topics l ! 3) else ''Unknown'')),
                 (''paymentToken'', PStr ''WHYPE'')]"
proof -
  let ?cs = "map (hex_digits 64) ws @ [replicate 30 CHR ''0'']"
  from assms(3) have "0 < length ws" "2 < length ws" "3 < length ws" "7 < length ws" by linarith+
  then have "int16 (?cs ! 0) = Inr (int (ws ! 0))"
    "int16 (?cs ! 2) = Inr (int (ws ! 2))"
    "int16 (?cs ! 3) = Inr (int (ws ! 3))"
    "int16 (?cs ! 7) = Inr (int (ws ! 7))"
    using assms(2) by (simp_all only: int16_chunk)
  with assms(3,4) show ?thesis
    by (simp add: decode_bid_accepted_event_def bid_accepted_body_def assms(1) chunks64_hex_text
        ebind_def Let_def nth_err_def del: nth_map nth_append)
qed

text \<open>
  On the payload of a ledger the decoders read raw bytes as hexadecimal text: when the first word
  is below \<open>2^232\<close>, as every price and bid type is, the first chunk starts with a NUL byte and
  neither decoder returns an event, however many words the payload has.
\<close>

lemma first_chunk_nul:
  assumes "e = CHR 0x00 # r"
  shows "int16 (chunks64 e ! 0) = Inl ValueError"
proof -
  have "0 < (length e + 63) div 64" by (simp add: assms)
  then have "chunks64 e ! 0 = take 64 e" by (simp add: chunks64_def)
  then show ?thesis by (simp add: assms int16_nul)
qed

lemma decoders_reject_ledger_payload:
  assumes "log_data l = abi_payload (w # ws)" and "w < 2 ^ 232"
  shows "decode_item_sold_event l = None" and "decode_bid_accepted_event l = None"
proof -
  have "2 < length (log_data l)" by (simp add: assms(1) length_abi_payload)
  moreover have "log_data l ! 2 = CHR 0x00"
    unfolding assms(1) using assms(2) by (rule abi_payload_third_byte)
  ultimately obtain r where "drop 2 (log_data l) = CHR 0x00 # r"
    by (metis Cons_nth_drop_Suc)
  then have c: "int16 (chunks64 (drop 2 (log_data l)) ! 0) = Inl ValueError"
    by (rule first_chunk_nul)
  show "decode_item_sold_event l = None"
    by (simp add: decode_item_sold_event_def item_sold_body_def Let_def c ebind_def)
  show "decode_bid_accepted_event l = None"
    by (simp add: decode_bid_accepted_event_def bid_accepted_body_def Let_def c ebind_def)
qed

subsection \<open>Addresses in topics\<close>

lemma drop_hex_digits: "drop j (hex_digits (j + k) n) = hex_digits k n"
  by (induction k arbitrary: n) simp_all

lemma topic_address_low_bytes: "topic_address t = ''0x'' @ hex_digits 40 (unat t)"
  using drop_hex_digits[of 24 40 "unat t"] by (simp add: topic_address_def hex_def)

subsection \<open>Classification\<close>

lemma topics_differ: "bid_accepted_topic \<noteq> item_sold_topic"
  by (simp add: bid_accepted_topic_def item_sold_topic_def)

lemma classify_transfer:
  "is_transfer w tr l \<Longrightarrow>
     classify_log w tr l acc = Inr (fst acc @ [PInt (uint (log_topics l ! 3))], snd acc)"
  by (simp add: classify_log_def int16_hex ebind_def Let_def)

lemma classify_failed_decode:
  assumes "\<not> is_transfer w tr l" and "log_topics l \<noteq> []"
    and "hex (log_topics l ! 0) = bid_accepted_topic \<and> decode_bid_accepted_event l = None
         \<or> hex (log_topics l ! 0) = item_sold_topic \<and> decode_item_sold_event l = None"
  shows "classify_log w tr l acc = Inr acc"
  using assms topics_differ
  by (auto simp: classify_log_def ebind_def nth_err_def Let_def)

lemma extract_loop_skip:
  "\<forall>acc. classify_log w tr l acc = Inr acc \<Longrightarrow>
     extract_loop w tr (pre @ l # post) acc = extract_loop w tr (pre @ post) acc"
  by (induction pre arbitrary: acc) (auto split: sum.splits)

lemma failed_decode_is_skipped:
  assumes "\<not> is_transfer w tr l" and "log_topics l \<noteq> []"
    and "hex (log_topics l ! 0) = bid_accepted_topic \<and> decode_bid_accepted_event l = None
         \<or> hex (log_topics l ! 0) = item_sold_topic \<and> decode_item_sold_event l = None"
  shows "extract_token_ids_from_logs w tr (pre @ l # post)
           = extract_token_ids_from_logs w tr (pre @ post)"
proof -
  have "classify_log w tr l a = Inr a" for a
    using assms by (rule classify_failed_decode)
  then show ?thesis
    unfolding extract_token_ids_from_logs_def by (intro extract_loop_skip) simp
qed

subsection \<open>The polling loop\<close>

lemma process_txs_filter:
  "process_txs w c tr ts =
     process_txs w c tr (filter (\<lambda>t. map_option lower (tx_to t) = Some (contract_address tr)) ts)"
  by (induction ts) (auto simp: addressed_def split: option.splits)

lemma blocks_loop_fst: "fst (blocks_loop w c ns st) = fst st"
  by (induction ns arbitrary: st) auto

lemma blocks_loop_snd:
  "snd (blocks_loop w c ns st) = snd st @ map (\<lambda>n. (n, process_block w c (fst st) n)) ns"
  by (induction ns arbitrary: st) auto

lemma visited_blocks_loop: "visited (blocks_loop w c ns st) = visited st @ ns"
  by (simp add: visited_def blocks_loop_snd comp_def)

lemma cycle_head:
  "block_number w = Inr H \<Longrightarrow>
     cycle w c st =
       ((fst st)\<lparr>last_processed_block := H\<rparr>,
        snd (blocks_loop w c [last_processed_block (fst st) + 1 .. H] st))"
  by (simp add: cycle_def Let_def blocks_loop_fst)

lemma cycle_failed: "block_number w = Inl e \<Longrightarrow> cycle w c st = st"
  by (simp add: cycle_def)

lemma visited_cycle:
  "block_number w = Inr H \<Longrightarrow>
     visited (cycle w c st) = visited st @ [last_processed_block (fst st) + 1 .. H]"
  using visited_blocks_loop[of w c "[last_processed_block (fst st) + 1 .. H]" st]
  by (simp add: cycle_head visited_def)

lemma upto_append:
  assumes "(a::int) \<le> b" and "b \<le> c"
  shows "[a + 1 .. b] @ [b + 1 .. c] = [a + 1 .. c]"
proof (cases "a = b")
  case True
  then show ?thesis by simp
next
  case False
  with assms(1) have "a + 1 \<le> b" by simp
  from upto_split2[OF this assms(2)] show ?thesis by simp
qed

lemma track_consistent:
  "heads_consistent (last_processed_block (fst st)) ws \<Longrightarrow>
     last_processed_block (fst st) \<le> last_processed_block (fst (track_transactions c ws st)) \<and>
     visited (track_transactions c ws st) =
       visited st @ [last_processed_block (fst st) + 1 ..
                     last_processed_block (fst (track_transactions c ws st))]"
proof (induction ws arbitrary: st)
  case Nil
  then show ?case by simp
next
  case (Cons w ws)
  show ?case
  proof (cases "block_number w")
    case (Inl e)
    with Cons show ?thesis by (simp add: cycle_failed)
  next
    case (Inr H)
    with Cons.prems have le: "last_processed_block (fst st) \<le> H" and rest: "heads_consistent H ws"
      by simp_all
    let ?st1 = "cycle w c st"
    have c1: "last_processed_block (fst ?st1) = H"
      using Inr by (simp add: cycle_head)
    have v1: "visited ?st1 = visited st @ [last_processed_block (fst st) + 1 .. H]"
      using Inr by (rule visited_cycle)
    from Cons.IH[of ?st1] rest c1
    have ih: "H \<le> last_processed_block (fst (track_transactions c ws ?st1))"
      "visited (track_transactions c ws ?st1) =
         visited ?st1 @ [H + 1 .. last_processed_block (fst (track_transactions c ws ?st1))]"
      by simp_all
    show ?thesis using le ih v1 by (simp add: upto_append)
  qed
qed

subsection \<open>Prices\<close>

lemma lt10_cases: "d < 10 \<Longrightarrow> d \<in> {0, 1, 2, 3, 4, 5, 6, 7, 8, 9::nat}"
  by simp arith

lemma digit_char_decimal:
  "d < 10 \<Longrightarrow> is_digit (digit_char d) \<and> digit_char d \<noteq> CHR ''.'' \<and> of_char (digit_char d) - 48 = d"
  by (drule lt10_cases) (auto simp: digit_char_def is_digit_def)

lemma str_nat_digits: "list_all is_digit (str_nat n)"
proof (induction n rule: str_nat.induct)
  case (1 n)
  show ?case
  proof (cases "n < 10")
    case True
    then show ?thesis by (simp add: str_nat_small digit_char_decimal)
  next
    case False
    with 1 show ?thesis by (simp add: str_nat_large digit_char_decimal)
  qed
qed

lemma str_nat_nonempty: "str_nat n \<noteq> []"
  by (subst str_nat.simps) simp

lemma read_str_nat:
  "foldl (\<lambda>a c. 10 * a + (of_char c - 48)) (acc::nat) (str_nat n) = acc * 10 ^ length (str_nat n) + n"
proof (induction n arbitrary: acc rule: str_nat.induct)
  case (1 n)
  show ?case
  proof (cases "n < 10")
    case True
    then show ?thesis by (simp add: str_nat_small digit_char_decimal)
  next
    case False
    with 1[of acc] show ?thesis
      by (simp add: str_nat_large digit_char_decimal algebra_simps)
  qed
qed

lemma length_str_nat: "0 < k \<Longrightarrow> n < 10 ^ k \<Longrightarrow> length (str_nat n) \<le> k"
proof (induction n arbitrary: k rule: str_nat.induct)
  case (1 n)
  show ?case
  proof (cases "n < 10")
    case True
    with 1(2) show ?thesis by (simp add: str_nat_small)
  next
    case False
    obtain j where k: "k = Suc j" using 1(2) by (cases k) auto
    with False 1(3) have "0 < j" by (cases j) auto
    moreover from 1(3) k have "n div 10 < 10 ^ j"
      by (simp add: less_mult_imp_div_less mult.commute)
    ultimately have "length (str_nat (n div 10)) \<le> j" using False by (intro 1(1)) simp_all
    with False k show ?thesis by (simp add: str_nat_large)
  qed
qed

lemma read_zeros:
  "foldl (\<lambda>a c. 10 * a + (of_char c - 48)) (acc::nat) (replicate k CHR ''0'') = acc * 10 ^ k"
  by (induction k arbitrary: acc) (simp_all add: algebra_simps)

lemma zeros_digits: "list_all is_digit (replicate k CHR ''0'')"
  by (induction k) (simp_all add: is_digit_def)

lemma read_zfill:
  assumes "b < 10 ^ 6"
  shows "foldl (\<lambda>a c. 10 * a + (of_char c - 48)) (acc::nat) (zfill 6 (str_nat b)) = acc * 10 ^ 6 + b"
    and "length (zfill 6 (str_nat b)) = 6"
    and "list_all is_digit (zfill 6 (str_nat b))"
proof -
  have len: "length (str_nat b) \<le> 6" using assms by (intro length_str_nat) simp_all
  then obtain k where k: "6 = k + length (str_nat b)" "6 - length (str_nat b) = k"
    by (metis add.commute le_add_diff_inverse)
  have "acc * 10 ^ k * 10 ^ length (str_nat b) = acc * 10 ^ (k + length (str_nat b))"
    by (simp add: power_add)
  then show "foldl (\<lambda>a c. 10 * a + (of_char c - 48)) acc (zfill 6 (str_nat b)) = acc * 10 ^ 6 + b"
    using k by (simp add: zfill_def read_zeros read_str_nat)
  show "length (zfill 6 (str_nat b)) = 6" using len by (simp add: zfill_def)
  show "list_all is_digit (zfill 6 (str_nat b))"
    by (simp add: zfill_def str_nat_digits zeros_digits)
qed

lemma takeWhile_dot:
  "list_all is_digit xs \<Longrightarrow> takeWhile (\<lambda>c. c \<noteq> CHR ''.'') (xs @ CHR ''.'' # ys) = xs"
  by (induction xs) (auto simp: is_digit_def)

lemma read_format_6f: "read_decimal (format_6f x) = Some (Decimal (quantize6 x) 6)"
proof -
  define q where "q = quantize6 x"
  define a where "a = q div 1000000"
  define b where "b = q mod 1000000"
  have b: "b < 10 ^ 6" by (simp add: b_def)
  have f: "format_6f x = str_nat a @ CHR ''.'' # zfill 6 (str_nat b)"
    by (simp add: format_6f_def Let_def q_def a_def b_def)
  have tw: "takeWhile (\<lambda>c. c \<noteq> CHR ''.'') (format_6f x) = str_nat a"
    unfolding f by (rule takeWhile_dot) (rule str_nat_digits)
  have v: "read_nat (str_nat a @ zfill 6 (str_nat b)) = q"
    using read_zfill(1)[OF b, of "a"] by (simp add: read_nat_def read_str_nat a_def b_def)
  have z: "zfill 6 (str_nat b) \<noteq> []" using read_zfill(2)[OF b] by auto
  show ?thesis
    unfolding read_decimal_def tw Let_def
    using v z read_zfill(2,3)[OF b]
    by (simp add: f str_nat_nonempty str_nat_digits q_def)
qed

lemma from_wei_accepts: "0 \<le> n \<Longrightarrow> n \<le> MAX_WEI \<Longrightarrow> \<exists>g. from_wei n = Inr g"
  by (simp add: from_wei_def)

lemma quantize6_fixed: "quantize6 (Decimal q 6) = q"
  by (simp add: quantize6_def)

lemma round_near_aux:
  "(r::nat) < d \<Longrightarrow> R = (if d < 2 * r \<or> (2 * r = d \<and> odd q) then q + 1 else q) \<Longrightarrow>
     2 * (q * d + r) \<le> 2 * (R * d) + d \<and> 2 * (R * d) \<le> 2 * (q * d + r) + d"
  by (auto simp: algebra_simps)

lemma round_half_even_near:
  assumes "0 < d"
  shows "2 * c \<le> 2 * (round_half_even c d * d) + d \<and> 2 * (round_half_even c d * d) \<le> 2 * c + d"
proof -
  have "c mod d < d" using assms by simp
  moreover have "round_half_even c d =
      (if d < 2 * (c mod d) \<or> (2 * (c mod d) = d \<and> odd (c div d)) then c div d + 1 else c div d)"
    by (simp add: round_half_even_def Let_def)
  ultimately have "2 * (c div d * d + c mod d) \<le> 2 * (round_half_even c d * d) + d
      \<and> 2 * (round_half_even c d * d) \<le> 2 * (c div d * d + c mod d) + d"
    by (rule round_near_aux)
  then show ?thesis by simp
qed

subsection \<open>The example data\<close>

lemma hex_TRANSFER_HASH:
  "hex TRANSFER_HASH = ''0xddf252ad1be2c89b69c2b068fc378daa952ba7f163c4a11628f55a4df523b3ef''"
  by (simp add: TRANSFER_HASH_def hex_def text_eval)

lemma hex_BID_ACCEPTED_HASH: "hex BID_ACCEPTED_HASH = bid_accepted_topic"
  by (simp add: BID_ACCEPTED_HASH_def bid_accepted_topic_def hex_def text_eval)

lemma hex_ITEM_SOLD_HASH: "hex ITEM_SOLD_HASH = item_sold_topic"
  by (simp add: ITEM_SOLD_HASH_def item_sold_topic_def hex_def text_eval)

lemma lower_CONTRACT_ADDRESS:
  "lower CONTRACT_ADDRESS = ''0xb6c73f6c09f850651dcb6d62a4d3a7f25e0016c4''"
  by (simp add: CONTRACT_ADDRESS_def lower_def lower_char_def)

lemma topic_address_examples:
  "topic_address addr_a = ''0xaaaaaaaaaaaaaaaaaaaaaaaaaaaaaaaaaaaaaaaa''"
  "topic_address addr_b = ''0xbbbbbbbbbbbbbbbbbbbbbbbbbbbbbbbbbbbbbbbb''"
  "topic_address addr_c = ''0xcccccccccccccccccccccccccccccccccccccccc''"
  by (simp_all add: topic_address_def addr_a_def addr_b_def addr_c_def hex_def text_eval)

lemma is_transfer_example: "is_transfer (ex_web3 H txs) ex_tracker (transfer_log n)"
  by (simp add: is_transfer_def transfer_log_def ex_web3_def ex_tracker_def transfer_topic_def)

lemma not_transfer_examples:
  "\<not> is_transfer (ex_web3 H txs) ex_tracker (bid_accepted_log ts d)"
  "\<not> is_transfer (ex_web3 H txs) ex_tracker (item_sold_log d)"
  by (simp_all add: is_transfer_def bid_accepted_log_def item_sold_log_def ex_web3_def
      transfer_topic_def hex_TRANSFER_HASH hex_BID_ACCEPTED_HASH hex_ITEM_SOLD_HASH
      bid_accepted_topic_def item_sold_topic_def)

lemma classify_bid_accepted:
  assumes "\<not> is_transfer w tr l" and "log_topics l \<noteq> []"
    and "hex (log_topics l ! 0) = bid_accepted_topic"
    and "decode_bid_accepted_event l = Some d" and "map_of d ''tokenId'' = Some t"
  shows "classify_log w tr l acc = Inr (fst acc @ [t], snd acc @ [(''BidAccepted'', d)])"
  using assms by (auto simp: classify_log_def ebind_def nth_err_def Let_def)

lemma words_bound_examples:
  "\<forall>x\<in>set [2000000000000000000, 1, 42]. x < (2::nat) ^ 256"
  "\<forall>x\<in>set [2000000000000000000, 1, 42, 0, 0]. x < (2::nat) ^ 256"
  "\<forall>x\<in>set [2000000000000000000, 1, 42, 0, 0, 0]. x < (2::nat) ^ 256"
  "\<forall>x\<in>set [1, 0, 5000000000000000000, 1, 0, 0, 0]. x < (2::nat) ^ 256"
  "\<forall>x\<in>set [1, 0, 5000000000000000000, 1, 0, 0, 0, 42]. x < (2::nat) ^ 256"
  by simp_all

lemma classify_without_topics: "log_topics l = [] \<Longrightarrow> classify_log w tr l acc = Inl IndexError"
  by (simp add: classify_log_def is_transfer_def nth_err_def ebind_def Let_def)

lemma extract_loop_abort:
  "\<forall>acc. \<exists>e. classify_log w tr l acc = Inl e \<Longrightarrow>
     extract_loop w tr (pre @ l # post) acc = extract_loop w tr pre acc"
proof (induction pre arbitrary: acc)
  case Nil
  then obtain e where "classify_log w tr l acc = Inl e" by blast
  then show ?case by simp
next
  case (Cons p ps)
  then show ?case by (cases "classify_log w tr p acc") simp_all
qed

subsection \<open>Notifications\<close>

lemma item_sold_text_needs_bidder:
  "map_of d ''bidder'' = None \<Longrightarrow> \<exists>e. item_sold_text d = Inl e"
  by (auto simp: item_sold_text_def ebind_def dict_get_def split: sum.splits option.splits)

lemma decode_item_sold_no_bidder:
  "decode_item_sold_event l = Some d \<Longrightarrow> map_of d ''bidder'' = None"
  by (auto simp: decode_item_sold_event_def item_sold_body_def ebind_def Let_def
      split: if_splits sum.splits)

lemma decode_bid_accepted_token:
  "decode_bid_accepted_event l = Some d \<Longrightarrow> \<exists>t. map_of d ''tokenId'' = Some (PInt t)"
  by (auto simp: decode_bid_accepted_event_def bid_accepted_body_def ebind_def Let_def
      split: if_splits sum.splits)

lemma bid_accepted_text_nonzero_token:
  "map_of d ''tokenId'' = Some (PInt t) \<Longrightarrow> t \<noteq> 0 \<Longrightarrow> \<exists>e. bid_accepted_text d = Inl e"
  by (auto simp: bid_accepted_text_def ebind_def dict_get_def token_text_def truthy_def map_str_def
      split: sum.splits option.splits)

lemma classify_item_sold:
  assumes "\<not> is_transfer w tr l" and "log_topics l \<noteq> []"
    and "hex (log_topics l ! 0) = item_sold_topic"
    and "decode_item_sold_event l = Some d" and "map_of d ''tokenId'' = Some t"
  shows "classify_log w tr l acc = Inr (fst acc @ [t], snd acc @ [(''ItemSold'', d)])"
  using assms topics_differ by (auto simp: classify_log_def ebind_def nth_err_def Let_def)

lemma sale_transaction_example:
  "handle_nft_transaction (ex_web3 H txs) c ex_tracker (ex_tx h dest inp)
     \<lparr>rc_status = 1, rc_gasUsed = 21000,
      rc_logs = [item_sold_log (hex_text_payload [2000000000000000000, 1, 42, 0, 0, 0])]\<rparr> =
   \<lparr>classified =
      [(''ItemSold'',
        [(''tokenId'', PInt 42),
         (''buyer'', PStr ''0xaaaaaaaaaaaaaaaaaaaaaaaaaaaaaaaaaaaaaaaa''),
         (''seller'', PStr ''0xcccccccccccccccccccccccccccccccccccccccc''),
         (''nftAddress'', PStr ''0xbbbbbbbbbbbbbbbbbbbbbbbbbbbbbbbbbbbbbbbb''),
         (''pricePerItem'', PInt 2000000000000000000),
         (''quantity'', PInt 1),
         (''paymentToken'', PStr ''WHYPE'')])],
    sent = []\<rparr>"
proof -
  let ?l = "item_sold_log (hex_text_payload [2000000000000000000, 1, 42, 0, 0, 0])"
  let ?d = "[(''tokenId'', PInt 42),
         (''buyer'', PStr ''0xaaaaaaaaaaaaaaaaaaaaaaaaaaaaaaaaaaaaaaaa''),
         (''seller'', PStr ''0xcccccccccccccccccccccccccccccccccccccccc''),
         (''nftAddress'', PStr ''0xbbbbbbbbbbbbbbbbbbbbbbbbbbbbbbbbbbbbbbbb''),
         (''pricePerItem'', PInt 2000000000000000000),
         (''quantity'', PInt 1),
         (''paymentToken'', PStr ''WHYPE'')]"
  have d: "decode_item_sold_event ?l = Some ?d"
    using decode_item_sold_hex_text[of ?l "[2000000000000000000, 1, 42, 0, 0, 0]"]
      words_bound_examples(3)
    by (simp add: item_sold_log_def topic_address_examples)
  have n: "\<not> is_transfer (ex_web3 H txs) ex_tracker ?l" by (rule not_transfer_examples)
  have c: "classify_log (ex_web3 H txs) ex_tracker ?l ([], []) = Inr ([PInt 42], [(''ItemSold'', ?d)])"
    using classify_item_sold[OF n _ _ d, where t = "PInt 42" and acc = "([], [])"]
    by (simp add: item_sold_log_def hex_ITEM_SOLD_HASH)
  have e: "extract_token_ids_from_logs (ex_web3 H txs) ex_tracker [?l] = ([PInt 42], [(''ItemSold'', ?d)])"
    by (simp only: extract_token_ids_from_logs_def extract_loop.simps c sum.case)
  obtain x where "item_sold_text ?d = Inl x"
    using item_sold_text_needs_bidder[of ?d] by auto
  then have s: "send_event c (''ItemSold'', ?d) = []"
    by (simp add: send_event_def send_item_sold_notification_def)
  have g: "from_wei 21000000000000 = Inr (Decimal 21000000000000 18)"
    "from_wei 3000000000000000000 = Inr (Decimal 3000000000000000000 18)"
    by (simp_all add: from_wei_def MAX_WEI_def)
  show ?thesis
    unfolding handle_nft_transaction_def Let_def receipt.simps e
    by (simp add: ex_tx_def g s)
qed

lemma bid_accepted_token_zero_example:
  "send_bid_accepted_notification c
     [(''tokenId'', PInt 0),
      (''bidType'', PInt 1),
      (''bidder'', PStr ''0xaaaaaaaaaaaaaaaaaaaaaaaaaaaaaaaaaaaaaaaa''),
      (''nftAddress'', PStr ''0xbbbbbbbbbbbbbbbbbbbbbbbbbbbbbbbbbbbbbbbb''),
      (''pricePerItem'', PInt 5000000000000000000),
      (''quantity'', PInt 1),
      (''seller'', PStr ''0xcccccccccccccccccccccccccccccccccccccccc''),
      (''paymentToken'', PStr ''WHYPE'')] =
   [\<lparr>chat_id = c,
     msg_text = message_text ''Unknown'' ''5.000000''
                  ''0xcccccccccccccccccccccccccccccccccccccccc''
                  ''0xaaaaaaaaaaaaaaaaaaaaaaaaaaaaaaaaaaaaaaaa'',
     parse_mode = ''Markdown''\<rparr>]"
  by (simp add: send_bid_accepted_notification_def bid_accepted_text_def ebind_def dict_get_def
      wei_val_def from_wei_def MAX_WEI_def token_text_def truthy_def str_val_def
      format_6f_def quantize6_def round_half_even_def zfill_def text_eval)

lemma extract_example:
  "extract_token_ids_from_logs (ex_web3 H txs) ex_tracker [transfer_log 7] = ([PInt 7], [])"
  using classify_transfer[OF is_transfer_example, of H txs 7 "([], [])"]
  by (simp add: extract_token_ids_from_logs_def transfer_log_def)

lemma format_example: "format_6f (Decimal 3000000000000000000 18) = ''3.000000''"
  by (simp add: format_6f_def quantize6_def round_half_even_def zfill_def text_eval)

lemma handle_example:
  "sent (handle_nft_transaction (ex_web3 H txs) c ex_tracker (ex_tx h dest inp) (ex_receipt st)) =
     [\<lparr>chat_id = c,
       msg_text = message_text ''7'' ''3.000000'' ''0xcccccccccccccccccccccccccccccccccccccccc'' dest,
       parse_mode = ''Markdown''\<rparr>]"
  by (simp add: handle_nft_transaction_def Let_def ex_tx_def ex_receipt_def from_wei_def MAX_WEI_def
      extract_example send_generic_notification_def str_val_def str_int_def str_opt_def
      format_example text_eval)

section \<open>The claims\<close>

text \<open>
  C1: for every typed event one message of the fixed shape is built and handed to the notifier.
  The senders do not do so: the text of an ItemSold message reads the key bidder, which a decoded
  ItemSold event does not have, and both senders iterate over the token id, an int, unless it is
  0. No decoded ItemSold event and no decoded BidAccepted event with a token id other than 0 leads
  to a message.
\<close>

theorem typed_event_notifications_fail:
  "(decode_item_sold_event l = Some item_data \<longrightarrow>
      send_item_sold_notification CHAT_ID item_data = [])
   \<and> (decode_bid_accepted_event l = Some bid_data \<and> map_of bid_data ''tokenId'' \<noteq> Some (PInt 0) \<longrightarrow>
        send_bid_accepted_notification CHAT_ID bid_data = [])"
proof (intro conjI impI)
  assume "decode_item_sold_event l = Some item_data"
  then have "map_of item_data ''bidder'' = None" by (rule decode_item_sold_no_bidder)
  then obtain e where "item_sold_text item_data = Inl e"
    using item_sold_text_needs_bidder by blast
  then show "send_item_sold_notification CHAT_ID item_data = []"
    by (simp add: send_item_sold_notification_def)
next
  assume a: "decode_bid_accepted_event l = Some bid_data \<and> map_of bid_data ''tokenId'' \<noteq> Some (PInt 0)"
  then obtain t where t: "map_of bid_data ''tokenId'' = Some (PInt t)"
    using decode_bid_accepted_token by blast
  with a have "t \<noteq> 0" by auto
  with t obtain e where "bid_accepted_text bid_data = Inl e"
    using bid_accepted_text_nonzero_token by blast
  then show "send_bid_accepted_notification CHAT_ID bid_data = []"
    by (simp add: send_bid_accepted_notification_def)
qed

theorem typed_event_notifications_fail_witness:
  "decode_item_sold_event (item_sold_log (hex_text_payload [2000000000000000000, 1, 42, 0, 0, 0])) =
     Some [(''tokenId'', PInt 42),
           (''buyer'', PStr ''0xaaaaaaaaaaaaaaaaaaaaaaaaaaaaaaaaaaaaaaaa''),
           (''seller'', PStr ''0xcccccccccccccccccccccccccccccccccccccccc''),
           (''nftAddress'', PStr ''0xbbbbbbbbbbbbbbbbbbbbbbbbbbbbbbbbbbbbbbbb''),
           (''pricePerItem'', PInt 2000000000000000000),
           (''quantity'', PInt 1),
           (''paymentToken'', PStr ''WHYPE'')] \<and>
   send_item_sold_notification None
     [(''tokenId'', PInt 42),
      (''buyer'', PStr ''0xaaaaaaaaaaaaaaaaaaaaaaaaaaaaaaaaaaaaaaaa''),
      (''seller'', PStr ''0xcccccccccccccccccccccccccccccccccccccccc''),
      (''nftAddress'', PStr ''0xbbbbbbbbbbbbbbbbbbbbbbbbbbbbbbbbbbbbbbbb''),
      (''pricePerItem'', PInt 2000000000000000000),
      (''quantity'', PInt 1),
      (''paymentToken'', PStr ''WHYPE'')] = [] \<and>
   decode_bid_accepted_event
     (bid_accepted_log [addr_a, addr_b, addr_c]
       (hex_text_payload [1, 0, 5000000000000000000, 1, 0, 0, 0, 42])) =
     Some [(''tokenId'', PInt 42),
           (''bidType'', PInt 1),
           (''bidder'', PStr ''0xaaaaaaaaaaaaaaaaaaaaaaaaaaaaaaaaaaaaaaaa''),
           (''nftAddress'', PStr ''0xbbbbbbbbbbbbbbbbbbbbbbbbbbbbbbbbbbbbbbbb''),
           (''pricePerItem'', PInt 5000000000000000000),
           (''quantity'', PInt 1),
           (''seller'', PStr ''0xcccccccccccccccccccccccccccccccccccccccc''),
           (''paymentToken'', PStr ''WHYPE'')] \<and>
   send_bid_accepted_notification None
     [(''tokenId'', PInt 42),
      (''bidType'', PInt 1),
      (''bidder'', PStr ''0xaaaaaaaaaaaaaaaaaaaaaaaaaaaaaaaaaaaaaaaa''),
      (''nftAddress'', PStr ''0xbbbbbbbbbbbbbbbbbbbbbbbbbbbbbbbbbbbbbbbb''),
      (''pricePerItem'', PInt 5000000000000000000),
      (''quantity'', PInt 1),
      (''seller'', PStr ''0xcccccccccccccccccccccccccccccccccccccccc''),
      (''paymentToken'', PStr ''WHYPE'')] = []"
proof -
  let ?sale = "item_sold_log (hex_text_payload [2000000000000000000, 1, 42, 0, 0, 0])"
  let ?bid = "bid_accepted_log [addr_a, addr_b, addr_c]
       (hex_text_payload [1, 0, 5000000000000000000, 1, 0, 0, 0, 42])"
  let ?item_data = "[(''tokenId'', PInt 42),
      (''buyer'', PStr ''0xaaaaaaaaaaaaaaaaaaaaaaaaaaaaaaaaaaaaaaaa''),
      (''seller'', PStr ''0xcccccccccccccccccccccccccccccccccccccccc''),
      (''nftAddress'', PStr ''0xbbbbbbbbbbbbbbbbbbbbbbbbbbbbbbbbbbbbbbbb''),
      (''pricePerItem'', PInt 2000000000000000000),
      (''quantity'', PInt 1),
      (''paymentToken'', PStr ''WHYPE'')]"
  let ?bid_data = "[(''tokenId'', PInt 42),
      (''bidType'', PInt 1),
      (''bidder'', PStr ''0xaaaaaaaaaaaaaaaaaaaaaaaaaaaaaaaaaaaaaaaa''),
      (''nftAddress'', PStr ''0xbbbbbbbbbbbbbbbbbbbbbbbbbbbbbbbbbbbbbbbb''),
      (''pricePerItem'', PInt 5000000000000000000),
      (''quantity'', PInt 1),
      (''seller'', PStr ''0xcccccccccccccccccccccccccccccccccccccccc''),
      (''paymentToken'', PStr ''WHYPE'')]"
  have s: "decode_item_sold_event ?sale = Some ?item_data"
    using decode_item_sold_hex_text[of ?sale "[2000000000000000000, 1, 42, 0, 0, 0]"]
      words_bound_examples(3)
    by (simp add: item_sold_log_def topic_address_examples)
  have b: "decode_bid_accepted_event ?bid = Some ?bid_data"
    using decode_bid_accepted_hex_text[of ?bid "[1, 0, 5000000000000000000, 1, 0, 0, 0, 42]"]
      words_bound_examples(5)
    by (simp add: bid_accepted_log_def topic_address_examples)
  have t: "map_of ?bid_data ''tokenId'' \<noteq> Some (PInt 0)" by simp
  from typed_event_notifications_fail[of ?sale ?item_data None] s
  have "send_item_sold_notification None ?item_data = []" by blast
  moreover from typed_event_notifications_fail[of ?bid _ _ ?bid_data] b t
  have "send_bid_accepted_notification None ?bid_data = []" by blast
  ultimately show ?thesis using s b by blast
qed

text \<open>
  C2, as amended: decoding an ItemSold log fails whenever the data payload has fewer than 6 words
  of 32 bytes, so the log of the claim, with exactly its 3 words, does not decode. Whenever
  decoding yields an event, the payload has at least 6 chunks, pricePerItem, quantity and tokenId
  are the integers read from chunks 0, 1 and 2, and buyer, nftAddress and seller are the
  addresses cut from topics 1..3, a missing topic giving Unknown.
\<close>

theorem decode_item_sold_needs_six_words:
  "(length (log_data l) < 6 * 32 \<longrightarrow> decode_item_sold_event l = None)
   \<and> (decode_item_sold_event l = Some d \<longrightarrow>
        6 \<le> length (chunks64 (drop 2 (log_data l)))
        \<and> (\<exists>price_per_item quantity token_id.
              int16 (chunks64 (drop 2 (log_data l)) ! 0) = Inr price_per_item
            \<and> int16 (chunks64 (drop 2 (log_data l)) ! 1) = Inr quantity
            \<and> int16 (chunks64 (drop 2 (log_data l)) ! 2) = Inr token_id
            \<and> d = [(''tokenId'', PInt token_id),
                   (''buyer'', PStr (if 1 < length (log_topics l)
                                     then topic_address (log_topics l ! 1) else ''Unknown'')),
                   (''seller'', PStr (if 3 < length (log_topics l)
                                      then topic_address (log_topics l ! 3) else ''Unknown'')),
                   (''nftAddress'', PStr (if 2 < length (log_topics l)
                                          then topic_address (log_topics l ! 2) else ''Unknown'')),
                   (''pricePerItem'', PInt price_per_item),
                   (''quantity'', PInt quantity),
                   (''paymentToken'', PStr ''WHYPE'')]))"
  using decode_item_sold_few_words[of l] decode_item_sold_shape[of l d] by blast

theorem decode_item_sold_needs_six_words_witness:
  "length (log_data (item_sold_log (abi_payload [2000000000000000000, 1, 42, 0, 0]))) = 160 \<and>
   decode_item_sold_event (item_sold_log (abi_payload [2000000000000000000, 1, 42, 0, 0])) = None \<and>
   decode_item_sold_event (item_sold_log (hex_text_payload [2000000000000000000, 1, 42, 0, 0, 0])) =
     Some [(''tokenId'', PInt 42),
           (''buyer'', PStr ''0xaaaaaaaaaaaaaaaaaaaaaaaaaaaaaaaaaaaaaaaa''),
           (''seller'', PStr ''0xcccccccccccccccccccccccccccccccccccccccc''),
           (''nftAddress'', PStr ''0xbbbbbbbbbbbbbbbbbbbbbbbbbbbbbbbbbbbbbbbb''),
           (''pricePerItem'', PInt 2000000000000000000),
           (''quantity'', PInt 1),
           (''paymentToken'', PStr ''WHYPE'')] \<and>
   length (chunks64 (drop 2 (log_data
     (item_sold_log (hex_text_payload [2000000000000000000, 1, 42, 0, 0, 0]))))) = 7 \<and>
   int16 (chunks64 (drop 2 (log_data
     (item_sold_log (hex_text_payload [2000000000000000000, 1, 42, 0, 0, 0])))) ! 2) = Inr 42"
proof -
  let ?short = "item_sold_log (abi_payload [2000000000000000000, 1, 42, 0, 0])"
  let ?full = "item_sold_log (hex_text_payload [2000000000000000000, 1, 42, 0, 0, 0])"
  let ?d = "[(''tokenId'', PInt 42),
           (''buyer'', PStr ''0xaaaaaaaaaaaaaaaaaaaaaaaaaaaaaaaaaaaaaaaa''),
           (''seller'', PStr ''0xcccccccccccccccccccccccccccccccccccccccc''),
           (''nftAddress'', PStr ''0xbbbbbbbbbbbbbbbbbbbbbbbbbbbbbbbbbbbbbbbb''),
           (''pricePerItem'', PInt 2000000000000000000),
           (''quantity'', PInt 1),
           (''paymentToken'', PStr ''WHYPE'')]"
  have s: "length (log_data ?short) = 160"
    by (simp add: item_sold_log_def length_abi_payload)
  have f: "decode_item_sold_event ?full = Some ?d"
    using decode_item_sold_hex_text[of ?full "[2000000000000000000, 1, 42, 0, 0, 0]"]
      words_bound_examples(3)
    by (simp add: item_sold_log_def topic_address_examples)
  have c: "length (chunks64 (drop 2 (log_data ?full))) = 7"
    by (simp add: item_sold_log_def chunks64_hex_text)
  from decode_item_sold_needs_six_words[of ?short] s
  have n: "decode_item_sold_event ?short = None" by simp
  from decode_item_sold_needs_six_words[of ?full ?d] f
  have "\<exists>price_per_item quantity token_id.
          int16 (chunks64 (drop 2 (log_data ?full)) ! 2) = Inr token_id
          \<and> ?d = [(''tokenId'', PInt token_id),
                   (''buyer'', PStr (if 1 < length (log_topics ?full)
                                     then topic_address (log_topics ?full ! 1) else ''Unknown'')),
                   (''seller'', PStr (if 3 < length (log_topics ?full)
                                      then topic_address (log_topics ?full ! 3) else ''Unknown'')),
                   (''nftAddress'', PStr (if 2 < length (log_topics ?full)
                                          then topic_address (log_topics ?full ! 2) else ''Unknown'')),
                   (''pricePerItem'', PInt price_per_item),
                   (''quantity'', PInt quantity),
                   (''paymentToken'', PStr ''WHYPE'')]"
    by blast
  then have t: "int16 (chunks64 (drop 2 (log_data ?full)) ! 2) = Inr 42" by auto
  from s n f c t show ?thesis by blast
qed

theorem item_sold_three_words_counterexample:
  "log_topics (item_sold_log (abi_payload [2000000000000000000, 1, 42]))
     = [ITEM_SOLD_HASH, addr_a, addr_b, addr_c] \<and>
   length (log_data (item_sold_log (abi_payload [2000000000000000000, 1, 42]))) = 3 * 32 \<and>
   decode_item_sold_event (item_sold_log (abi_payload [2000000000000000000, 1, 42])) = None"
  using decode_item_sold_few_words[of "item_sold_log (abi_payload [2000000000000000000, 1, 42])"]
  by (simp add: item_sold_log_def length_abi_payload)

text \<open>
  C3, as amended: in a cycle whose observed chain head H is below the cursor C no block is
  processed and no error is raised; across cycles whose observed heads never lie below the
  cursor, the cursor never decreases and the heights processed are exactly those between the
  first cursor and the last, in ascending order, so none is processed twice.
\<close>

theorem cursor_monotone_when_heads_consistent:
  "(block_number w = Inr H \<and> H < last_processed_block (fst st) \<longrightarrow>
      snd (cycle w CHAT_ID st) = snd st)
   \<and> (heads_consistent (last_processed_block (fst st)) ws \<longrightarrow>
        last_processed_block (fst st) \<le> last_processed_block (fst (track_transactions CHAT_ID ws st)) \<and>
        visited (track_transactions CHAT_ID ws st) =
          visited st @ [last_processed_block (fst st) + 1 ..
                        last_processed_block (fst (track_transactions CHAT_ID ws st))])"
  by (auto simp: cycle_head track_consistent)

theorem cursor_monotone_when_heads_consistent_witness:
  "block_number (ex_web3 99 []) = Inr 99 \<and> 99 < last_processed_block (fst (ex_tracker, [])) \<and>
   snd (cycle (ex_web3 99 []) None (ex_tracker, [])) = [] \<and>
   heads_consistent (last_processed_block (fst (ex_tracker, []))) [ex_web3 102 [], ex_web3 102 [], ex_web3 104 []] \<and>
   last_processed_block (fst (track_transactions None [ex_web3 102 [], ex_web3 102 [], ex_web3 104 []] (ex_tracker, []))) = 104 \<and>
   visited (track_transactions None [ex_web3 102 [], ex_web3 102 [], ex_web3 104 []] (ex_tracker, [])) = [101, 102, 103, 104]"
proof -
  let ?ws = "[ex_web3 102 [], ex_web3 102 [], ex_web3 104 []]"
  have h: "block_number (ex_web3 99 []) = Inr 99 \<and> 99 < last_processed_block (fst (ex_tracker, []))"
    by (simp add: ex_web3_def ex_tracker_def)
  have k: "heads_consistent (last_processed_block (fst (ex_tracker, []))) ?ws"
    by (simp add: ex_web3_def ex_tracker_def)
  have f: "last_processed_block (fst (track_transactions None ?ws (ex_tracker, []))) = 104"
    by (simp add: cycle_head ex_web3_def)
  have r: "[last_processed_block (fst (ex_tracker, [])) + 1 .. 104] = [101, 102, 103, 104]"
    by (simp add: ex_tracker_def upto_rec1)
  from cursor_monotone_when_heads_consistent[of "ex_web3 99 []" 99 "(ex_tracker, [])" None ?ws]
  show ?thesis
    using h k unfolding f r by (simp add: visited_def)
qed

theorem cursor_regresses_counterexample:
  "visited (track_transactions None [ex_web3 102 [], ex_web3 100 [], ex_web3 102 []] (ex_tracker, []))
     = [101, 102, 101, 102]
   \<and> last_processed_block (fst (track_transactions None [ex_web3 102 []] (ex_tracker, []))) = 102
   \<and> last_processed_block (fst (track_transactions None [ex_web3 102 [], ex_web3 100 []] (ex_tracker, []))) = 100"
proof -
  have b: "block_number (ex_web3 H []) = Inr H" for H by (simp add: ex_web3_def)
  have r: "[(100::int) + 1 .. 102] = [101, 102]" "[(102::int) + 1 .. 100] = []"
    by (simp_all add: upto_rec1)
  show ?thesis
    by (simp add: visited_cycle[OF b] cycle_head[OF b] r ex_tracker_def visited_def)
qed

text \<open>
  C4, as amended: decoding a BidAccepted log fails whenever the data payload has fewer than 8
  words of 32 bytes or the log has fewer than 3 topics, and a log whose decoding fails is skipped
  by the classifier. Whenever decoding yields an event, the payload has at least 8 chunks,
  bidType, pricePerItem, quantity and tokenId are the integers read from chunks 0, 2, 3 and 7,
  bidder and nftAddress are the addresses cut from topics 1 and 2, and seller is the address cut
  from topic 3 when the log has one, Unknown otherwise.
\<close>

theorem decode_bid_accepted_needs_eight_words_three_topics:
  "(length (log_data l) < 8 * 32 \<or> length (log_topics l) < 3 \<longrightarrow>
      decode_bid_accepted_event l = None)
   \<and> (\<not> is_transfer w tr l \<and> log_topics l \<noteq> [] \<and> hex (log_topics l ! 0) = bid_accepted_topic
        \<and> decode_bid_accepted_event l = None \<longrightarrow>
        classify_log w tr l acc = Inr acc)
   \<and> (decode_bid_accepted_event l = Some d \<longrightarrow>
        8 \<le> length (chunks64 (drop 2 (log_data l))) \<and> 3 \<le> length (log_topics l)
        \<and> (\<exists>bid_type price_per_item quantity token_id.
              int16 (chunks64 (drop 2 (log_data l)) ! 0) = Inr bid_type
            \<and> int16 (chunks64 (drop 2 (log_data l)) ! 2) = Inr price_per_item
            \<and> int16 (chunks64 (drop 2 (log_data l)) ! 3) = Inr quantity
            \<and> int16 (chunks64 (drop 2 (log_data l)) ! 7) = Inr token_id
            \<and> d = [(''tokenId'', PInt token_id),
                   (''bidType'', PInt bid_type),
                   (''bidder'', PStr (topic_address (log_topics l ! 1))),
                   (''nftAddress'', PStr (topic_address (log_topics l ! 2))),
                   (''pricePerItem'', PInt price_per_item),
                   (''quantity'', PInt quantity),
                   (''seller'', PStr (if 3 < length (log_topics l)
                                      then topic_address (log_topics l ! 3) else ''Unknown'')),
                   (''paymentToken'', PStr ''WHYPE'')]))"
proof (intro conjI impI)
  assume "length (log_data l) < 8 * 32 \<or> length (log_topics l) < 3"
  then show "decode_bid_accepted_event l = None" by (rule decode_bid_accepted_few_words)
next
  assume "\<not> is_transfer w tr l \<and> log_topics l \<noteq> [] \<and> hex (log_topics l ! 0) = bid_accepted_topic
        \<and> decode_bid_accepted_event l = None"
  then show "classify_log w tr l acc = Inr acc"
    by (intro classify_failed_decode) simp_all
next
  assume d: "decode_bid_accepted_event l = Some d"
  from decode_bid_accepted_shape[OF d]
  show "8 \<le> length (chunks64 (drop 2 (log_data l)))" and "3 \<le> length (log_topics l)"
    and "\<exists>bid_type price_per_item quantity token_id.
              int16 (chunks64 (drop 2 (log_data l)) ! 0) = Inr bid_type
            \<and> int16 (chunks64 (drop 2 (log_data l)) ! 2) = Inr price_per_item
            \<and> int16 (chunks64 (drop 2 (log_data l)) ! 3) = Inr quantity
            \<and> int16 (chunks64 (drop 2 (log_data l)) ! 7) = Inr token_id
            \<and> d = [(''tokenId'', PInt token_id),
                   (''bidType'', PInt bid_type),
                   (''bidder'', PStr (topic_address (log_topics l ! 1))),
                   (''nftAddress'', PStr (topic_address (log_topics l ! 2))),
                   (''pricePerItem'', PInt price_per_item),
                   (''quantity'', PInt quantity),
                   (''seller'', PStr (if 3 < length (log_topics l)
                                      then topic_address (log_topics l ! 3) else ''Unknown'')),
                   (''paymentToken'', PStr ''WHYPE'')]"
    by blast+
qed

theorem decode_bid_accepted_needs_eight_words_three_topics_witness:
  "length (log_data (bid_accepted_log [addr_a, addr_b, addr_c]
      (abi_payload [1, 0, 5000000000000000000, 1, 0, 0, 0]))) = 224 \<and>
   decode_bid_accepted_event (bid_accepted_log [addr_a, addr_b, addr_c]
      (abi_payload [1, 0, 5000000000000000000, 1, 0, 0, 0])) = None \<and>
   classify_log (ex_web3 101 []) ex_tracker
     (bid_accepted_log [addr_a, addr_b, addr_c] (abi_payload [1, 0, 5000000000000000000, 1, 0, 0, 0]))
     ([PInt 7], []) = Inr ([PInt 7], []) \<and>
   length (log_topics (bid_accepted_log [addr_a]
      (hex_text_payload [1, 0, 5000000000000000000, 1, 0, 0, 0, 42]))) = 2 \<and>
   decode_bid_accepted_event (bid_accepted_log [addr_a]
      (hex_text_payload [1, 0, 5000000000000000000, 1, 0, 0, 0, 42])) = None \<and>
   decode_bid_accepted_event (bid_accepted_log [addr_a, addr_b, addr_c]
      (hex_text_payload [1, 0, 5000000000000000000, 1, 0, 0, 0, 42])) =
     Some [(''tokenId'', PInt 42),
           (''bidType'', PInt 1),
           (''bidder'', PStr ''0xaaaaaaaaaaaaaaaaaaaaaaaaaaaaaaaaaaaaaaaa''),
           (''nftAddress'', PStr ''0xbbbbbbbbbbbbbbbbbbbbbbbbbbbbbbbbbbbbbbbb''),
           (''pricePerItem'', PInt 5000000000000000000),
           (''quantity'', PInt 1),
           (''seller'', PStr ''0xcccccccccccccccccccccccccccccccccccccccc''),
           (''paymentToken'', PStr ''WHYPE'')] \<and>
   length (chunks64 (drop 2 (log_data (bid_accepted_log [addr_a, addr_b, addr_c]
      (hex_text_payload [1, 0, 5000000000000000000, 1, 0, 0, 0, 42]))))) = 9 \<and>
   int16 (chunks64 (drop 2 (log_data (bid_accepted_log [addr_a, addr_b, addr_c]
      (hex_text_payload [1, 0, 5000000000000000000, 1, 0, 0, 0, 42])))) ! 7) = Inr 42"
proof -
  let ?seven = "bid_accepted_log [addr_a, addr_b, addr_c]
      (abi_payload [1, 0, 5000000000000000000, 1, 0, 0, 0])"
  let ?two = "bid_accepted_log [addr_a] (hex_text_payload [1, 0, 5000000000000000000, 1, 0, 0, 0, 42])"
  let ?full = "bid_accepted_log [addr_a, addr_b, addr_c]
      (hex_text_payload [1, 0, 5000000000000000000, 1, 0, 0, 0, 42])"
  let ?d = "[(''tokenId'', PInt 42),
           (''bidType'', PInt 1),
           (''bidder'', PStr ''0xaaaaaaaaaaaaaaaaaaaaaaaaaaaaaaaaaaaaaaaa''),
           (''nftAddress'', PStr ''0xbbbbbbbbbbbbbbbbbbbbbbbbbbbbbbbbbbbbbbbb''),
           (''pricePerItem'', PInt 5000000000000000000),
           (''quantity'', PInt 1),
           (''seller'', PStr ''0xcccccccccccccccccccccccccccccccccccccccc''),
           (''paymentToken'', PStr ''WHYPE'')]"
  have s: "length (log_data ?seven) = 224"
    by (simp add: bid_accepted_log_def length_abi_payload)
  have t: "length (log_topics ?two) = 2"
    by (simp add: bid_accepted_log_def)
  have n: "\<not> is_transfer (ex_web3 101 []) ex_tracker ?seven \<and> log_topics ?seven \<noteq> []
      \<and> hex (log_topics ?seven ! 0) = bid_accepted_topic"
    using not_transfer_examples(1)[of 101 "[]"]
    by (simp add: bid_accepted_log_def hex_BID_ACCEPTED_HASH)
  have f: "decode_bid_accepted_event ?full = Some ?d"
    using decode_bid_accepted_hex_text[of ?full "[1, 0, 5000000000000000000, 1, 0, 0, 0, 42]"]
      words_bound_examples(5)
    by (simp add: bid_accepted_log_def topic_address_examples)
  have c: "length (chunks64 (drop 2 (log_data ?full))) = 9"
    by (simp add: bid_accepted_log_def chunks64_hex_text)
  from decode_bid_accepted_needs_eight_words_three_topics[of ?seven] s
  have d7: "decode_bid_accepted_event ?seven = None" by simp
  from decode_bid_accepted_needs_eight_words_three_topics[of ?seven "ex_web3 101 []"
      ex_tracker "([PInt 7], [])"] n d7
  have k: "classify_log (ex_web3 101 []) ex_tracker ?seven ([PInt 7], []) = Inr ([PInt 7], [])"
    by blast
  from decode_bid_accepted_needs_eight_words_three_topics[of ?two] t
  have d2: "decode_bid_accepted_event ?two = None" by simp
  from decode_bid_accepted_needs_eight_words_three_topics[of ?full _ _ _ ?d] f
  have "\<exists>bid_type price_per_item quantity token_id.
          int16 (chunks64 (drop 2 (log_data ?full)) ! 7) = Inr token_id
          \<and> ?d = [(''tokenId'', PInt token_id),
                   (''bidType'', PInt bid_type),
                   (''bidder'', PStr (topic_address (log_topics ?full ! 1))),
                   (''nftAddress'', PStr (topic_address (log_topics ?full ! 2))),
                   (''pricePerItem'', PInt price_per_item),
                   (''quantity'', PInt quantity),
                   (''seller'', PStr (if 3 < length (log_topics ?full)
                                      then topic_address (log_topics ?full ! 3) else ''Unknown'')),
                   (''paymentToken'', PStr ''WHYPE'')]"
    by blast
  then have v: "int16 (chunks64 (drop 2 (log_data ?full)) ! 7) = Inr 42" by auto
  from s d7 k t d2 f c v show ?thesis by blast
qed

theorem bid_accepted_three_topics_counterexample:
  "length (log_topics (bid_accepted_log [addr_a, addr_b]
      (hex_text_payload [1, 0, 5000000000000000000, 1, 0, 0, 0, 42]))) = 3 \<and>
   length (log_data (bid_accepted_log [addr_a, addr_b]
      (hex_text_payload [1, 0, 5000000000000000000, 1, 0, 0, 0, 42]))) = 17 * 32 \<and>
   decode_bid_accepted_event (bid_accepted_log [addr_a, addr_b]
      (hex_text_payload [1, 0, 5000000000000000000, 1, 0, 0, 0, 42])) =
     Some [(''tokenId'', PInt 42),
           (''bidType'', PInt 1),
           (''bidder'', PStr ''0xaaaaaaaaaaaaaaaaaaaaaaaaaaaaaaaaaaaaaaaa''),
           (''nftAddress'', PStr ''0xbbbbbbbbbbbbbbbbbbbbbbbbbbbbbbbbbbbbbbbb''),
           (''pricePerItem'', PInt 5000000000000000000),
           (''quantity'', PInt 1),
           (''seller'', PStr ''Unknown''),
           (''paymentToken'', PStr ''WHYPE'')] \<and>
   length (log_topics (bid_accepted_log [addr_a, addr_b, addr_c]
      (abi_payload [1, 0, 5000000000000000000, 1, 0, 0, 0, 42]))) = 4 \<and>
   length (log_data (bid_accepted_log [addr_a, addr_b, addr_c]
      (abi_payload [1, 0, 5000000000000000000, 1, 0, 0, 0, 42]))) = 8 * 32 \<and>
   decode_bid_accepted_event (bid_accepted_log [addr_a, addr_b, addr_c]
      (abi_payload [1, 0, 5000000000000000000, 1, 0, 0, 0, 42])) = None"
proof -
  let ?three = "bid_accepted_log [addr_a, addr_b]
      (hex_text_payload [1, 0, 5000000000000000000, 1, 0, 0, 0, 42])"
  let ?real = "bid_accepted_log [addr_a, addr_b, addr_c]
      (abi_payload [1, 0, 5000000000000000000, 1, 0, 0, 0, 42])"
  have a: "decode_bid_accepted_event ?three =
     Some [(''tokenId'', PInt 42),
           (''bidType'', PInt 1),
           (''bidder'', PStr ''0xaaaaaaaaaaaaaaaaaaaaaaaaaaaaaaaaaaaaaaaa''),
           (''nftAddress'', PStr ''0xbbbbbbbbbbbbbbbbbbbbbbbbbbbbbbbbbbbbbbbb''),
           (''pricePerItem'', PInt 5000000000000000000),
           (''quantity'', PInt 1),
           (''seller'', PStr ''Unknown''),
           (''paymentToken'', PStr ''WHYPE'')]"
    using decode_bid_accepted_hex_text[of ?three "[1, 0, 5000000000000000000, 1, 0, 0, 0, 42]"]
      words_bound_examples(5)
    by (simp add: bid_accepted_log_def topic_address_examples)
  have b: "length (log_data ?three) = 17 * 32"
    by (simp add: bid_accepted_log_def hex_text_payload_def)
  have c: "decode_bid_accepted_event ?real = None"
    by (rule decoders_reject_ledger_payload(2)[of _ 1 "[0, 5000000000000000000, 1, 0, 0, 0, 42]"])
      (simp_all add: bid_accepted_log_def)
  have d: "length (log_data ?real) = 8 * 32"
    by (simp add: bid_accepted_log_def length_abi_payload)
  from a b c d show ?thesis by (simp add: bid_accepted_log_def)
qed

text \<open>
  C5: a decode failure on any one log of a receipt does not abort the classification of the
  others. The source does skip a log whose decoder returns None, but the \<^verbatim>\<open>try\<close> of
  \<^verbatim>\<open>extract_token_ids_from_logs\<close> is around the whole loop, and a log without topics raises
  IndexError at \<^verbatim>\<open>log.topics[0]\<close>: the loop ends there, and every log after it goes
  unclassified.
\<close>

theorem log_without_topics_ends_classification:
  "log_topics l = [] \<Longrightarrow>
     extract_token_ids_from_logs w tr (pre @ l # post) = extract_token_ids_from_logs w tr pre"
proof -
  assume "log_topics l = []"
  then have "\<forall>acc. \<exists>e. classify_log w tr l acc = Inl e"
    by (simp add: classify_without_topics)
  then show ?thesis
    unfolding extract_token_ids_from_logs_def by (rule extract_loop_abort)
qed

theorem log_without_topics_ends_classification_witness:
  "log_topics anonymous_log = [] \<and>
   extract_token_ids_from_logs (ex_web3 101 []) ex_tracker [transfer_log 7] = ([PInt 7], []) \<and>
   extract_token_ids_from_logs (ex_web3 101 []) ex_tracker [anonymous_log, transfer_log 7] = ([], [])"
proof -
  have t: "log_topics anonymous_log = []" by (simp add: anonymous_log_def)
  from log_without_topics_ends_classification[OF t, of "ex_web3 101 []" ex_tracker "[]"
      "[transfer_log 7]"]
  have "extract_token_ids_from_logs (ex_web3 101 []) ex_tracker [anonymous_log, transfer_log 7]
          = ([], [])"
    by (simp add: extract_token_ids_from_logs_def)
  with t extract_example[of 101 "[]"] show ?thesis by blast
qed

text \<open>
  C6: if classifying the receipt of a qualifying transaction yields zero typed events but at least
  one bare token id from a Transfer log, exactly one generic notification is sent, carrying the
  transaction's declared value in native units as the price and the transaction's from and to
  addresses as seller and buyer. The text of the message is spelled out: the token ids joined by
  commas, the value rendered by \<open>format_6f\<close>, the from-address on the line \<^verbatim>\<open>from:\<close> and the
  to-address on the line \<^verbatim>\<open>to:\<close>. The gas cost and the value are amounts that \<open>from_wei\<close>
  accepts, as every amount of the ledger is.
\<close>

theorem generic_transfer_notification:
  assumes "0 \<le> rc_gasUsed r * tx_gasPrice t" and "rc_gasUsed r * tx_gasPrice t \<le> MAX_WEI"
    and "tx_value t \<le> MAX_WEI"
    and "extract_token_ids_from_logs w tr (rc_logs r) = (token_ids, [])" and "token_ids \<noteq> []"
  shows "handle_nft_transaction w CHAT_ID tr t r =
           \<lparr>classified = [],
            sent = [\<lparr>chat_id = CHAT_ID,
                     msg_text =
                       [CHR 0x0A] @ ''PiP & Friends '' @ join '', '' (map str_val token_ids)
                       @ '' was bought for ''
                       @ format_6f (if 0 < tx_value t then Decimal (nat (tx_value t)) 18
                                    else Decimal 0 0)
                       @ '' HYPE'' @ [CHR 0x0A, CHR 0x0A]
                       @ ''from: '' @ [CHR 0x27] @ tx_from t @ [CHR 0x27, CHR 0x0A]
                       @ ''to: '' @ [CHR 0x27] @ str_opt (tx_to t) @ [CHR 0x27, CHR 0x0A]
                       @ ''            '',
                     parse_mode = ''Markdown''\<rparr>]\<rparr>"
proof -
  from assms(1,2) obtain g where g: "from_wei (rc_gasUsed r * tx_gasPrice t) = Inr g"
    using from_wei_accepts by blast
  have v: "(if 0 < tx_value t then from_wei (tx_value t) else Inr (Decimal 0 0))
             = Inr (if 0 < tx_value t then Decimal (nat (tx_value t)) 18 else Decimal 0 0)"
    using assms(3) by (auto simp: from_wei_def)
  show ?thesis
    unfolding handle_nft_transaction_def Let_def g v assms(4)
    using assms(5) by (simp add: send_generic_notification_def message_text_def nl_def quote_def)
qed

theorem generic_transfer_notification_witness:
  "0 \<le> rc_gasUsed (ex_receipt 1) * tx_gasPrice (ex_tx 1 CONTRACT_ADDRESS ''0xa9059cbb00'') \<and>
   rc_gasUsed (ex_receipt 1) * tx_gasPrice (ex_tx 1 CONTRACT_ADDRESS ''0xa9059cbb00'') \<le> MAX_WEI \<and>
   tx_value (ex_tx 1 CONTRACT_ADDRESS ''0xa9059cbb00'') = 3000000000000000000 \<and>
   tx_value (ex_tx 1 CONTRACT_ADDRESS ''0xa9059cbb00'') \<le> MAX_WEI \<and>
   tx_from (ex_tx 1 CONTRACT_ADDRESS ''0xa9059cbb00'') = ''0xcccccccccccccccccccccccccccccccccccccccc'' \<and>
   tx_to (ex_tx 1 CONTRACT_ADDRESS ''0xa9059cbb00'') = Some ''0xb6c73F6c09f850651DCb6D62a4D3A7F25e0016C4'' \<and>
   rc_logs (ex_receipt 1) = [transfer_log 7] \<and>
   is_transfer (ex_web3 101 []) ex_tracker (transfer_log 7) \<and>
   extract_token_ids_from_logs (ex_web3 101 []) ex_tracker (rc_logs (ex_receipt 1)) = ([PInt 7], []) \<and>
   handle_nft_transaction (ex_web3 101 []) None ex_tracker (ex_tx 1 CONTRACT_ADDRESS ''0xa9059cbb00'')
       (ex_receipt 1) =
     \<lparr>classified = [],
      sent = [\<lparr>chat_id = None,
               msg_text =
                 [CHR 0x0A] @ ''PiP & Friends 7 was bought for 3.000000 HYPE'' @ [CHR 0x0A, CHR 0x0A]
                 @ ''from: '' @ [CHR 0x27] @ ''0xcccccccccccccccccccccccccccccccccccccccc''
                 @ [CHR 0x27, CHR 0x0A]
                 @ ''to: '' @ [CHR 0x27] @ ''0xb6c73F6c09f850651DCb6D62a4D3A7F25e0016C4''
                 @ [CHR 0x27, CHR 0x0A]
                 @ ''            '',
               parse_mode = ''Markdown''\<rparr>]\<rparr>"
proof -
  let ?t = "ex_tx 1 CONTRACT_ADDRESS ''0xa9059cbb00''"
  have g: "0 \<le> rc_gasUsed (ex_receipt 1) * tx_gasPrice ?t"
    "rc_gasUsed (ex_receipt 1) * tx_gasPrice ?t \<le> MAX_WEI"
    "tx_value ?t \<le> MAX_WEI"
    by (simp_all add: ex_receipt_def ex_tx_def MAX_WEI_def)
  have x: "tx_value ?t = 3000000000000000000"
    "tx_from ?t = ''0xcccccccccccccccccccccccccccccccccccccccc''"
    "tx_to ?t = Some ''0xb6c73F6c09f850651DCb6D62a4D3A7F25e0016C4''"
    by (simp_all add: ex_tx_def CONTRACT_ADDRESS_def)
  have l: "rc_logs (ex_receipt 1) = [transfer_log 7]" by (simp add: ex_receipt_def)
  have e: "extract_token_ids_from_logs (ex_web3 101 []) ex_tracker (rc_logs (ex_receipt 1)) = ([PInt 7], [])"
    unfolding l by (rule extract_example)
  have j: "join '', '' (map str_val [PInt 7]) = ''7''"
    by (simp add: str_val_def str_int_def text_eval)
  from generic_transfer_notification[OF g e, of None]
  have "handle_nft_transaction (ex_web3 101 []) None ex_tracker ?t (ex_receipt 1) =
     \<lparr>classified = [],
      sent = [\<lparr>chat_id = None,
               msg_text =
                 [CHR 0x0A] @ ''PiP & Friends 7 was bought for 3.000000 HYPE'' @ [CHR 0x0A, CHR 0x0A]
                 @ ''from: '' @ [CHR 0x27] @ ''0xcccccccccccccccccccccccccccccccccccccccc''
                 @ [CHR 0x27, CHR 0x0A]
                 @ ''to: '' @ [CHR 0x27] @ ''0xb6c73F6c09f850651DCb6D62a4D3A7F25e0016C4''
                 @ [CHR 0x27, CHR 0x0A]
                 @ ''            '',
               parse_mode = ''Markdown''\<rparr>]\<rparr>"
    unfolding j x by (simp add: str_opt_def format_example)
  with g x l e is_transfer_example[of 101 "[]" 7] show ?thesis by blast
qed

text \<open>
  C7: for a block range (C, H] with H \<ge> C observed in one cycle, the poller processes each height
  C+1..H exactly once, in ascending order, before the cursor is advanced to H. The loop over the
  range appends exactly the heights C+1..H to the trace and leaves the cursor at C; the cycle then
  ends with that trace and the cursor at H.
\<close>

theorem cycle_visits_range:
  assumes "block_number w = Inr H" and "last_processed_block (fst st) \<le> H"
  shows "visited (blocks_loop w CHAT_ID [last_processed_block (fst st) + 1 .. H] st)
           = visited st @ [last_processed_block (fst st) + 1 .. H]
         \<and> last_processed_block (fst (blocks_loop w CHAT_ID [last_processed_block (fst st) + 1 .. H] st))
           = last_processed_block (fst st)
         \<and> cycle w CHAT_ID st =
             ((fst st)\<lparr>last_processed_block := H\<rparr>,
              snd (blocks_loop w CHAT_ID [last_processed_block (fst st) + 1 .. H] st))
         \<and> distinct [last_processed_block (fst st) + 1 .. H]
         \<and> sorted [last_processed_block (fst st) + 1 .. H]
         \<and> set [last_processed_block (fst st) + 1 .. H] = {h. last_processed_block (fst st) < h \<and> h \<le> H}"
  using assms by (auto simp: visited_blocks_loop blocks_loop_fst cycle_head)

theorem cycle_visits_range_witness:
  "block_number (ex_web3 103 []) = Inr 103 \<and> last_processed_block (fst (ex_tracker, [])) \<le> 103 \<and>
   visited (cycle (ex_web3 103 []) None (ex_tracker, [])) = [101, 102, 103] \<and>
   last_processed_block (fst (cycle (ex_web3 103 []) None (ex_tracker, []))) = 103"
proof -
  have h: "block_number (ex_web3 103 []) = Inr 103" by (simp add: ex_web3_def)
  have c: "last_processed_block (fst (ex_tracker, [])) \<le> 103" by (simp add: ex_tracker_def)
  have r: "[last_processed_block (fst (ex_tracker, [])) + 1 .. 103] = [101, 102, 103]"
    by (simp add: ex_tracker_def upto_rec1)
  from cycle_visits_range[OF h c, of None] show ?thesis
    using h c unfolding r by (simp add: visited_def)
qed

text \<open>
  C8: a transaction of a processed block is analysed only if its to-address, lower-cased, equals
  the tracked contract address, and it produces zero events and zero notifications unless its
  receipt status is success. The outcome of a block is the outcomes of its addressed transactions,
  in order; an addressed transaction has the contract as its lower-cased to-address; a receipt
  whose status is not 1 gives nothing.
\<close>

theorem only_addressed_successful_analyzed:
  "process_block w CHAT_ID tr n =
     (case get_block w n of
        Inl e \<Rightarrow> nothing
      | Inr b \<Rightarrow> foldr outcome_append
                  (map (analyze_transaction w CHAT_ID tr) (filter (addressed tr) (transactions b)))
                  nothing)
   \<and> (addressed tr t \<longrightarrow> map_option lower (tx_to t) = Some (contract_address tr))
   \<and> (get_transaction_receipt w (tx_hash t) = Inr r \<and> rc_status r \<noteq> 1 \<longrightarrow>
        classified (analyze_transaction w CHAT_ID tr t) = [] \<and>
        sent (analyze_transaction w CHAT_ID tr t) = [])"
proof (intro conjI impI)
  have "process_txs w CHAT_ID tr ts =
          foldr outcome_append (map (analyze_transaction w CHAT_ID tr) (filter (addressed tr) ts)) nothing"
    for ts
    by (induction ts) simp_all
  then show "process_block w CHAT_ID tr n =
     (case get_block w n of
        Inl e \<Rightarrow> nothing
      | Inr b \<Rightarrow> foldr outcome_append
                  (map (analyze_transaction w CHAT_ID tr) (filter (addressed tr) (transactions b)))
                  nothing)"
    by (simp add: process_block_def split: sum.split)
next
  assume "addressed tr t"
  then show "map_option lower (tx_to t) = Some (contract_address tr)"
    by (auto simp: addressed_def split: option.splits)
next
  assume "get_transaction_receipt w (tx_hash t) = Inr r \<and> rc_status r \<noteq> 1"
  then show "classified (analyze_transaction w CHAT_ID tr t) = []"
    and "sent (analyze_transaction w CHAT_ID tr t) = []"
    by (simp_all add: analyze_transaction_def nothing_def)
qed

theorem only_addressed_successful_analyzed_witness:
  "\<not> addressed ex_tracker (ex_tx 1 ''0x1111111111111111111111111111111111111111'' ''0xa9059cbb00'') \<and>
   addressed ex_tracker (ex_tx 2 CONTRACT_ADDRESS ''0xa9059cbb00'') \<and>
   map_option lower (tx_to (ex_tx 2 CONTRACT_ADDRESS ''0xa9059cbb00'')) = Some (contract_address ex_tracker) \<and>
   rc_status (ex_receipt 0) \<noteq> 1 \<and>
   process_block
     (ex_web3 101 [ex_tx 1 ''0x1111111111111111111111111111111111111111'' ''0xa9059cbb00'',
                   ex_tx 2 CONTRACT_ADDRESS ''0xa9059cbb00''])
     None ex_tracker 101 = nothing"
proof -
  let ?t1 = "ex_tx 1 ''0x1111111111111111111111111111111111111111'' ''0xa9059cbb00''"
  let ?t2 = "ex_tx 2 CONTRACT_ADDRESS ''0xa9059cbb00''"
  let ?w = "ex_web3 101 [?t1, ?t2]"
  have a1: "\<not> addressed ex_tracker ?t1"
    by (simp add: addressed_def ex_tx_def ex_tracker_def lower_CONTRACT_ADDRESS)
      (simp add: lower_def lower_char_def)
  have a2: "addressed ex_tracker ?t2"
    by (simp add: addressed_def ex_tx_def ex_tracker_def) (simp add: CONTRACT_ADDRESS_def)
  have r: "get_transaction_receipt ?w (tx_hash ?t2) = Inr (ex_receipt 0) \<and> rc_status (ex_receipt 0) \<noteq> 1"
    by (simp add: ex_web3_def ex_tx_def ex_receipt_def)
  have b: "get_block ?w 101 = Inr \<lparr>transactions = [?t1, ?t2]\<rparr>"
    by (simp add: ex_web3_def)
  from only_addressed_successful_analyzed[of ?w None ex_tracker 101 ?t2 "ex_receipt 0"] a1 a2 r b
  have "analyze_transaction ?w None ex_tracker ?t2 = nothing"
    and "process_block ?w None ex_tracker 101 = outcome_append (analyze_transaction ?w None ex_tracker ?t2) nothing"
    and "map_option lower (tx_to ?t2) = Some (contract_address ex_tracker)"
    by (simp_all add: nothing_def)
  with a1 a2 r show ?thesis by simp
qed

text \<open>
  C9: a qualifying transaction with a success receipt is classified only if its input data is at
  least 10 characters long; a transaction with shorter or empty input produces zero events and
  zero notifications, whatever logs its receipt holds.
\<close>

theorem short_input_not_classified:
  "length (tx_input t) < 10 \<Longrightarrow>
     classified (analyze_transaction w CHAT_ID tr t) = [] \<and>
     sent (analyze_transaction w CHAT_ID tr t) = []"
  by (simp add: analyze_transaction_def nothing_def split: sum.split)

theorem short_input_not_classified_witness:
  "length (tx_input (ex_tx 1 CONTRACT_ADDRESS ''0x'')) < 10 \<and>
   get_transaction_receipt (ex_web3 101 []) (tx_hash (ex_tx 1 CONTRACT_ADDRESS ''0x'')) = Inr (ex_receipt 1) \<and>
   sent (handle_nft_transaction (ex_web3 101 []) None ex_tracker (ex_tx 1 CONTRACT_ADDRESS ''0x'') (ex_receipt 1)) \<noteq> [] \<and>
   classified (analyze_transaction (ex_web3 101 []) None ex_tracker (ex_tx 1 CONTRACT_ADDRESS ''0x'')) = [] \<and>
   sent (analyze_transaction (ex_web3 101 []) None ex_tracker (ex_tx 1 CONTRACT_ADDRESS ''0x'')) = []"
proof -
  have short: "length (tx_input (ex_tx 1 CONTRACT_ADDRESS ''0x'')) < 10"
    by (simp add: ex_tx_def)
  from short_input_not_classified[OF short] show ?thesis
    using short by (simp add: handle_example) (simp add: ex_tx_def ex_web3_def)
qed

text \<open>
  C10: every displayed price is the raw integer amount divided by \<open>10^18\<close> and rendered with 6
  fractional digits, and reading the rendered text back and rendering it again gives the same
  text; raw 1_500000000000000000 renders as 1.500000. For a raw amount that \<open>from_wei\<close> accepts,
  the rendering is the integer part, a point and six digits of the amount in millionths,
  which is the raw amount over \<open>10^12\<close> rounded to the nearest integer.
\<close>

theorem price_rendering_stable:
  assumes "0 \<le> raw" and "raw \<le> MAX_WEI"
  shows "\<exists>d. from_wei raw = Inr d
           \<and> quantize6 d = round_half_even (nat raw) (10 ^ 12)
           \<and> 2 * nat raw \<le> 2 * (quantize6 d * 10 ^ 12) + 10 ^ 12
           \<and> 2 * (quantize6 d * 10 ^ 12) \<le> 2 * nat raw + 10 ^ 12
           \<and> format_6f d = str_nat (quantize6 d div 1000000) @ ''.''
                             @ zfill 6 (str_nat (quantize6 d mod 1000000))
           \<and> length (zfill 6 (str_nat (quantize6 d mod 1000000))) = 6
           \<and> read_decimal (format_6f d) = Some (Decimal (quantize6 d) 6)
           \<and> format_6f (Decimal (quantize6 d) 6) = format_6f d"
proof -
  define d where "d = (if raw = 0 then Decimal 0 0 else Decimal (nat raw) 18)"
  have fw: "from_wei raw = Inr d"
    using assms by (simp add: from_wei_def d_def)
  have q: "quantize6 d = round_half_even (nat raw) (10 ^ 12)"
    by (simp add: d_def quantize6_def round_half_even_def)
  have near: "2 * nat raw \<le> 2 * (quantize6 d * 10 ^ 12) + 10 ^ 12
      \<and> 2 * (quantize6 d * 10 ^ 12) \<le> 2 * nat raw + 10 ^ 12"
    unfolding q by (rule round_half_even_near) simp
  have f: "format_6f d = str_nat (quantize6 d div 1000000) @ ''.''
                             @ zfill 6 (str_nat (quantize6 d mod 1000000))"
    by (simp add: format_6f_def Let_def)
  have len: "length (zfill 6 (str_nat (quantize6 d mod 1000000))) = 6"
    by (rule read_zfill(2)) simp
  have again: "format_6f (Decimal (quantize6 d) 6) = format_6f d"
    by (simp add: format_6f_def quantize6_fixed)
  from fw q near f len read_format_6f[of d] again show ?thesis by blast
qed

theorem price_rendering_stable_witness:
  "(0::int) \<le> 1500000000000000000 \<and> 1500000000000000000 \<le> MAX_WEI \<and>
   from_wei 1500000000000000000 = Inr (Decimal 1500000000000000000 18) \<and>
   format_6f (Decimal 1500000000000000000 18) = ''1.500000'' \<and>
   read_decimal ''1.500000'' = Some (Decimal 1500000 6) \<and>
   format_6f (Decimal 1500000 6) = ''1.500000''"
proof -
  have b: "(0::int) \<le> 1500000000000000000" "1500000000000000000 \<le> MAX_WEI"
    by (simp_all add: MAX_WEI_def)
  have fw: "from_wei 1500000000000000000 = Inr (Decimal 1500000000000000000 18)"
    by (simp add: from_wei_def MAX_WEI_def)
  have q: "quantize6 (Decimal 1500000000000000000 18) = 1500000"
    by (simp add: quantize6_def round_half_even_def)
  have f: "format_6f (Decimal 1500000000000000000 18) = ''1.500000''"
    by (simp add: format_6f_def q zfill_def text_eval)
  from price_rendering_stable[OF b] fw
  have "read_decimal (format_6f (Decimal 1500000000000000000 18))
          = Some (Decimal (quantize6 (Decimal 1500000000000000000 18)) 6)
        \<and> format_6f (Decimal (quantize6 (Decimal 1500000000000000000 18)) 6)
          = format_6f (Decimal 1500000000000000000 18)"
    by auto
  with b fw f q show ?thesis by simp
qed

end
